theory Spec2Isabelle
  imports Main
begin

section \<open>Values crossing the process boundary\<close>

text \<open>
  Every message between the extension host, the worker and the webview is a JSON value
  (\<^verbatim>\<open>await r.json()\<close>, \<^verbatim>\<open>panel.webview.postMessage\<close>, \<^verbatim>\<open>event.data\<close>).
  \<open>JUndefined\<close> is what JavaScript yields on reading a property that is not there.
  An object is kept as the list of its members in the order written; where a key is
  written twice the later member counts, as in \<^verbatim>\<open>JSON.parse\<close> and in an object
  literal. Of a number the code below inspects only that it is one
  (\<^verbatim>\<open>typeof x === 'number'\<close>) and whether it is zero (truthiness), so integers stand
  for numbers.
\<close>

datatype json =
    JUndefined
  | JNull
  | JBool bool
  | JNum int
  | JStr string
  | JArr "json list"
  | JObj "(string \<times> json) list"

text \<open>\<^verbatim>\<open>v.k\<close> for a receiver that is neither \<^verbatim>\<open>null\<close> nor \<^verbatim>\<open>undefined\<close>: own
  properties of an object, \<^verbatim>\<open>undefined\<close> on every other value (none of the property
  names read in this program exists on a primitive or on an array). Reading a property
  of \<^verbatim>\<open>null\<close> or \<^verbatim>\<open>undefined\<close> throws; the callers below test \<open>nullish\<close> first
  wherever the source can reach that.\<close>

fun getp :: "json \<Rightarrow> string \<Rightarrow> json" where
  "getp (JObj kvs) k = (case map_of (rev kvs) k of Some v \<Rightarrow> v | None \<Rightarrow> JUndefined)"
| "getp v k = JUndefined"

text \<open>\<^verbatim>\<open>a[0]\<close> on an array.\<close>

fun index0 :: "json \<Rightarrow> json" where
  "index0 (JArr (x # xs)) = x"
| "index0 v = JUndefined"

fun nullish :: "json \<Rightarrow> bool" where
  "nullish JUndefined = True"
| "nullish JNull = True"
| "nullish v = False"

text \<open>\<^verbatim>\<open>a ?? b\<close>\<close>

definition coalesce :: "json \<Rightarrow> json \<Rightarrow> json" where
  "coalesce a b = (if nullish a then b else a)"

text \<open>JavaScript truthiness, as used by \<^verbatim>\<open>!x\<close>, \<^verbatim>\<open>a || b\<close> and \<^verbatim>\<open>a && b\<close>.\<close>

fun truthy :: "json \<Rightarrow> bool" where
  "truthy JUndefined = False"
| "truthy JNull = False"
| "truthy (JBool b) = b"
| "truthy (JNum n) = (n \<noteq> 0)"
| "truthy (JStr s) = (s \<noteq> [])"
| "truthy (JArr xs) = True"
| "truthy (JObj kvs) = True"

text \<open>\<^verbatim>\<open>a || b\<close>\<close>

definition js_or :: "json \<Rightarrow> json \<Rightarrow> json" where
  "js_or a b = (if truthy a then a else b)"

text \<open>\<^verbatim>\<open>typeof v === 'string'\<close>, \<^verbatim>\<open>typeof v === 'number'\<close> and \<^verbatim>\<open>Array.isArray(v)\<close>\<close>

fun is_string :: "json \<Rightarrow> bool" where
  "is_string (JStr s) = True"
| "is_string v = False"


fun isArray :: "json \<Rightarrow> bool" where
  "isArray (JArr xs) = True"
| "isArray v = False"

subsection \<open>Strings\<close>

text \<open>
  The two string tests of the program compare against ASCII keywords without regard to
  case: \<^verbatim>\<open>next.toLowerCase().includes('executor')\<close> and the regular expression
  \<^verbatim>\<open>/ECONNREFUSED|connect|failed to fetch|NetworkError/i\<close>. No character outside ASCII
  lowers to a letter of these keywords, so lowering the ASCII capitals decides both.
\<close>

definition lower_char :: "char \<Rightarrow> char" where
  "lower_char c =
     (if (65::nat) \<le> of_char c \<and> of_char c \<le> (90::nat)
      then char_of (of_char c + (32::nat)) else c)"

definition toLowerCase :: "string \<Rightarrow> string" where
  "toLowerCase s = map lower_char s"

text \<open>\<^verbatim>\<open>s.includes(pat)\<close>: \<open>pat\<close> occurs in \<open>s\<close> as a contiguous run.\<close>

fun includes_str :: "string \<Rightarrow> string \<Rightarrow> bool" where
  "includes_str [] pat = (pat = [])"
| "includes_str (c # cs) pat = (take (length pat) (c # cs) = pat \<or> includes_str cs pat)"

section \<open>The webview: one snapshot merged from partial updates\<close>

text \<open>
  \<^verbatim>\<open>type WebviewData\<close> of the dashboard component. Every field is optional in the source
  type; what the guards of the reducer admit at run time is a string, a number or any
  array, so the arrays hold JSON values.
\<close>

record WebviewData =
  prompt :: "string option"
  plan :: "json list option"
  currentStepIndex :: "int option"
  artifacts :: "json list option"
  next' :: "string option"
  taskId :: "string option"
  proposedToolCall :: "string option"
  thought_trace :: "string option"
  active_model :: "string option"

text \<open>The argument of \<^verbatim>\<open>useState\<close>: the fields not listed start undefined.\<close>

definition initial_data :: WebviewData where
  "initial_data =
     \<lparr> prompt = Some '''', plan = Some [], currentStepIndex = Some 0, artifacts = Some [],
       next' = None, taskId = None, proposedToolCall = None,
       thought_trace = None, active_model = None \<rparr>"

text \<open>
  The pattern \<^verbatim>\<open>typeof msg.f === 'string' ? msg.f : typeof raw.f === 'string' ? raw.f : prev.f\<close>
  and its siblings for numbers and arrays: the payload first, the envelope second, the
  held value last.
\<close>

definition pick_string :: "json \<Rightarrow> json \<Rightarrow> string \<Rightarrow> string option \<Rightarrow> string option" where
  "pick_string msg raw k held =
     (case getp msg k of JStr s \<Rightarrow> Some s
      | _ \<Rightarrow> (case getp raw k of JStr s \<Rightarrow> Some s | _ \<Rightarrow> held))"

definition pick_number :: "json \<Rightarrow> json \<Rightarrow> string \<Rightarrow> int option \<Rightarrow> int option" where
  "pick_number msg raw k held =
     (case getp msg k of JNum n \<Rightarrow> Some n
      | _ \<Rightarrow> (case getp raw k of JNum n \<Rightarrow> Some n | _ \<Rightarrow> held))"

definition pick_array :: "json \<Rightarrow> json \<Rightarrow> string \<Rightarrow> json list option \<Rightarrow> json list option" where
  "pick_array msg raw k held =
     (case getp msg k of JArr xs \<Rightarrow> Some xs
      | _ \<Rightarrow> (case getp raw k of JArr xs \<Rightarrow> Some xs | _ \<Rightarrow> held))"

text \<open>
  \<^verbatim>\<open>Array.isArray(m.artifacts) && m.artifacts[0] && typeof m.artifacts[0].call === 'string'\<close>,
  and then \<^verbatim>\<open>m.artifacts[0].call\<close>: the call description embedded in the first artifact.
\<close>

definition artifact_call :: "json \<Rightarrow> string option" where
  "artifact_call m =
     (if isArray (getp m ''artifacts'') \<and> truthy (index0 (getp m ''artifacts''))
      then (case getp (index0 (getp m ''artifacts'')) ''call'' of
              JStr s \<Rightarrow> Some s | _ \<Rightarrow> None)
      else None)"

definition pick_proposedToolCall :: "json \<Rightarrow> json \<Rightarrow> string option \<Rightarrow> string option" where
  "pick_proposedToolCall msg raw held =
     (case getp msg ''proposedToolCall'' of JStr s \<Rightarrow> Some s
      | _ \<Rightarrow> (case getp raw ''proposedToolCall'' of JStr s \<Rightarrow> Some s
             | _ \<Rightarrow> (case artifact_call msg of Some s \<Rightarrow> Some s
                    | None \<Rightarrow> (case artifact_call raw of Some s \<Rightarrow> Some s
                              | None \<Rightarrow> held))))"

text \<open>\<^verbatim>\<open>const raw = event.data ?? {}\<close> and \<^verbatim>\<open>const msg = raw.data ?? raw\<close>: a bare
  payload and a \<^verbatim>\<open>{type, data}\<close> envelope are both accepted.\<close>

definition raw_of :: "json \<Rightarrow> json" where
  "raw_of event_data = coalesce event_data (JObj [])"

definition msg_of :: "json \<Rightarrow> json" where
  "msg_of event_data = coalesce (getp (raw_of event_data) ''data'') (raw_of event_data)"

text \<open>The message handler of the dashboard: the function passed to \<^verbatim>\<open>setData\<close>,
  applied to the held snapshot.\<close>

definition handler :: "WebviewData \<Rightarrow> json \<Rightarrow> WebviewData" where
  "handler prev event_data =
     prev\<lparr> prompt := pick_string (msg_of event_data) (raw_of event_data) ''prompt'' (prompt prev),
           plan := pick_array (msg_of event_data) (raw_of event_data) ''plan'' (plan prev),
           currentStepIndex :=
             pick_number (msg_of event_data) (raw_of event_data) ''currentStepIndex''
               (currentStepIndex prev),
           artifacts :=
             pick_array (msg_of event_data) (raw_of event_data) ''artifacts'' (artifacts prev),
           next' := pick_string (msg_of event_data) (raw_of event_data) ''next'' (next' prev),
           taskId := pick_string (msg_of event_data) (raw_of event_data) ''taskId'' (taskId prev),
           proposedToolCall :=
             pick_proposedToolCall (msg_of event_data) (raw_of event_data) (proposedToolCall prev),
           thought_trace :=
             pick_string (msg_of event_data) (raw_of event_data) ''thought_trace''
               (thought_trace prev),
           active_model :=
             pick_string (msg_of event_data) (raw_of event_data) ''active_model''
               (active_model prev) \<rparr>"

subsection \<open>The approval gate\<close>

text \<open>\<^verbatim>\<open>typeof next === 'string' && next.toLowerCase().includes('executor')\<close>\<close>

definition isPausedForApproval :: "string option \<Rightarrow> bool" where
  "isPausedForApproval n =
     (case n of None \<Rightarrow> False | Some s \<Rightarrow> includes_str (toLowerCase s) ''executor'')"

text \<open>The approval card is rendered exactly under \<^verbatim>\<open>isPausedForApproval(data.next)\<close>.\<close>

definition approval_shown :: "WebviewData \<Rightarrow> bool" where
  "approval_shown d = isPausedForApproval (next' d)"

text \<open>
  A thrown value. Everything this program catches is an error object with a name and a
  message; \<^verbatim>\<open>String(err)\<close> and \<^verbatim>\<open>${err}\<close> render it as \<^verbatim>\<open>Error.prototype.toString\<close>
  does.
\<close>

record js_error =
  err_name :: string
  err_message :: string

definition String_of :: "js_error \<Rightarrow> string" where
  "String_of e =
     (if err_name e = [] then err_message e
      else if err_message e = [] then err_name e
      else err_name e @ '': '' @ err_message e)"

text \<open>How an awaited \<^verbatim>\<open>fetch\<close> of the decision ends. The response is not looked at.\<close>

datatype decision_fetch = DecisionResolved | DecisionRejected js_error

text \<open>
  \<^verbatim>\<open>POST /task/${encodeURIComponent(taskId)}/approve\<close> with the JSON body given; the
  request is kept as the task identifier and the body.
\<close>

record approve_request =
  req_task :: string
  req_body :: json

definition approval_error :: "string \<Rightarrow> json" where
  "approval_error m =
     JObj [(''type'', JStr ''approval:error''), (''data'', JObj [(''message'', JStr m)])]"

text \<open>
  \<^verbatim>\<open>handleApprove\<close> and \<^verbatim>\<open>handleReject\<close> never call \<^verbatim>\<open>setData\<close>. What they do is
  returned: the requests sent and the messages given to \<^verbatim>\<open>window.postMessage\<close>, which
  the window delivers to its own message listener, the \<open>handler\<close> above.
  \<^verbatim>\<open>!data.taskId\<close> holds for an undefined and for an empty identifier.
\<close>

definition handleApprove ::
  "WebviewData \<Rightarrow> decision_fetch \<Rightarrow> approve_request list \<times> json list" where
  "handleApprove d f =
     (case taskId d of
        None \<Rightarrow> ([], [approval_error ''taskId missing for approval''])
      | Some t \<Rightarrow>
          if t = [] then ([], [approval_error ''taskId missing for approval''])
          else
            (case f of
               DecisionResolved \<Rightarrow>
                 ([\<lparr> req_task = t, req_body = JObj [(''approved'', JBool True)] \<rparr>],
                  [JObj [(''type'', JStr ''approval:approved''),
                         (''data'', JObj [(''taskId'', JStr t)])]])
             | DecisionRejected e \<Rightarrow>
                 ([\<lparr> req_task = t, req_body = JObj [(''approved'', JBool True)] \<rparr>],
                  [approval_error (String_of e)])))"

definition handleReject ::
  "WebviewData \<Rightarrow> string \<Rightarrow> decision_fetch \<Rightarrow> approve_request list \<times> json list" where
  "handleReject d feedback f =
     (case taskId d of
        None \<Rightarrow> ([], [approval_error ''taskId missing for rejection''])
      | Some t \<Rightarrow>
          if t = [] then ([], [approval_error ''taskId missing for rejection''])
          else
            (case f of
               DecisionResolved \<Rightarrow>
                 ([\<lparr> req_task = t,
                     req_body = JObj [(''approved'', JBool False), (''feedback'', JStr feedback)] \<rparr>],
                  [JObj [(''type'', JStr ''approval:rejected''),
                         (''data'', JObj [(''taskId'', JStr t), (''feedback'', JStr feedback)])]])
             | DecisionRejected e \<Rightarrow>
                 ([\<lparr> req_task = t,
                     req_body = JObj [(''approved'', JBool False), (''feedback'', JStr feedback)] \<rparr>],
                  [approval_error (String_of e)])))"

text \<open>
  What can happen to the dashboard component: a message event arrives; the user presses
  one of the two buttons of the approval card (with the way the request ends); or the
  page is loaded anew (the extension sets the HTML of the panel again after a reset, and
  the host rebuilds a panel that was hidden), which starts the component from
  \<^verbatim>\<open>useState\<close>'s argument. A step returns the new snapshot and the messages the
  component posts to its window.
\<close>

datatype ui_event =
    Message json
  | Approve decision_fetch
  | Reject string decision_fetch
  | Reloaded

fun ui_step :: "WebviewData \<Rightarrow> ui_event \<Rightarrow> WebviewData \<times> json list" where
  "ui_step d (Message m) = (handler d m, [])"
| "ui_step d (Approve f) = (d, snd (handleApprove d f))"
| "ui_step d (Reject feedback f) = (d, snd (handleReject d feedback f))"
| "ui_step d Reloaded = (initial_data, [])"

text \<open>The snapshot after a sequence of events, each message the component posts to its
  own window being delivered to its listener right after the event that posted it.\<close>

fun ui_run :: "WebviewData \<Rightarrow> ui_event list \<Rightarrow> WebviewData" where
  "ui_run d [] = d"
| "ui_run d (ev # evs) = ui_run (foldl handler (fst (ui_step d ev)) (snd (ui_step d ev))) evs"

subsection \<open>The earlier dashboard component\<close>

text \<open>
  \<^verbatim>\<open>src/webview-ui/src/App.tsx\<close> holds the snapshot with the first four fields only and
  merges them the same way.
\<close>

record WebviewData4 =
  prompt4 :: "string option"
  plan4 :: "json list option"
  currentStepIndex4 :: "int option"
  artifacts4 :: "json list option"

definition handler4 :: "WebviewData4 \<Rightarrow> json \<Rightarrow> WebviewData4" where
  "handler4 prev event_data =
     prev\<lparr> prompt4 := pick_string (msg_of event_data) (raw_of event_data) ''prompt'' (prompt4 prev),
           plan4 := pick_array (msg_of event_data) (raw_of event_data) ''plan'' (plan4 prev),
           currentStepIndex4 :=
             pick_number (msg_of event_data) (raw_of event_data) ''currentStepIndex''
               (currentStepIndex4 prev),
           artifacts4 :=
             pick_array (msg_of event_data) (raw_of event_data) ''artifacts'' (artifacts4 prev) \<rparr>"

definition first_four :: "WebviewData \<Rightarrow> WebviewData4" where
  "first_four d =
     \<lparr> prompt4 = prompt d, plan4 = plan d, currentStepIndex4 = currentStepIndex d,
       artifacts4 = artifacts d \<rparr>"

text \<open>The two events in which the user submits a decision.\<close>

fun is_decision :: "ui_event \<Rightarrow> bool" where
  "is_decision (Approve f) = True"
| "is_decision (Reject feedback f) = True"
| "is_decision ev = False"

subsection \<open>Vocabulary for the properties of the merge\<close>

text \<open>
  The fields of the snapshot that hold a string and those that hold an array, each with
  the key under which a message carries it. (\<open>currentStepIndex\<close> holds a number;
  \<open>proposedToolCall\<close> holds a string but has a further source, the first artifact.)
\<close>

definition string_fields :: "(string \<times> (WebviewData \<Rightarrow> string option)) list" where
  "string_fields =
     [(''prompt'', prompt), (''next'', next'), (''taskId'', taskId),
      (''thought_trace'', thought_trace), (''active_model'', active_model)]"

definition array_fields :: "(string \<times> (WebviewData \<Rightarrow> json list option)) list" where
  "array_fields = [(''plan'', plan), (''artifacts'', artifacts)]"



text \<open>A snapshot and an update with fields of the wrong types, for the examples.\<close>

definition paused_snapshot :: WebviewData where
  "paused_snapshot =
     \<lparr> prompt = Some ''x'', plan = Some [JStr ''Gather context''], currentStepIndex = Some 0,
       artifacts = Some [], next' = Some ''Executor'', taskId = Some ''abc123'',
       proposedToolCall = Some ''write_file(a.txt)'', thought_trace = None,
       active_model = None \<rparr>"



text \<open>An update that carries every field of the snapshot.\<close>

definition full_update :: json where
  "full_update =
     JObj [(''type'', JStr ''task_update''),
           (''data'', JObj [(''prompt'', JStr ''p''), (''plan'', JArr [JStr ''s1'', JStr ''s2'']),
                            (''currentStepIndex'', JNum 1),
                            (''artifacts'', JArr [JObj [(''filename'', JStr ''a.txt'')]]),
                            (''next'', JStr ''planner''), (''taskId'', JStr ''t9''),
                            (''proposedToolCall'', JStr ''run()''),
                            (''thought_trace'', JStr ''thinking''),
                            (''active_model'', JStr ''m1'')])]"
section \<open>The extension host\<close>

subsection \<open>Requests and their outcomes\<close>

text \<open>
  \<^verbatim>\<open>await res.json()\<close> yields a JSON value or rejects. An awaited \<^verbatim>\<open>fetch\<close> rejects, or
  resolves to a response with its \<^verbatim>\<open>ok\<close> flag, status and body; the source also
  provides for a falsy result (\<^verbatim>\<open>!res\<close>).
\<close>

datatype body = BodyJson json | BodyInvalid js_error

datatype response = NoResponse | Response bool int body

datatype fetch_outcome = Rejected js_error | Resolved response

text \<open>The \<^verbatim>\<open>TypeError\<close> of reading property \<open>k\<close> of \<^verbatim>\<open>null\<close>, in V8's wording.\<close>

definition null_read :: "string \<Rightarrow> js_error" where
  "null_read k =
     \<lparr> err_name = ''TypeError'',
       err_message = ''Cannot read properties of null (reading '' @ [CHR 0x27] @ k @ [CHR 0x27] @ '')'' \<rparr>"

text \<open>What the host throws when \<^verbatim>\<open>panel.webview\<close> is read on a panel that was closed.\<close>

definition webview_disposed :: js_error where
  "webview_disposed = \<lparr> err_name = ''Error'', err_message = ''Webview is disposed'' \<rparr>"

fun decimal :: "nat \<Rightarrow> string" where
  "decimal n =
     (if n < 10 then [char_of (48 + n)] else decimal (n div 10) @ [char_of (48 + n mod 10)])"

declare decimal.simps [simp del]

subsection \<open>State of the extension\<close>

text \<open>
  The lines written to the output channel, one constructor for each template of
  \<^verbatim>\<open>outputChannel.appendLine\<close>, with the values interpolated into it.
\<close>

datatype log_line =
    Activating
  | FoundVenvPython string
  | VenvPythonMissing
  | RunningSetupScript
  | SetupSpawnFailed js_error
  | SetupCompleted
  | SetupPythonStillMissing string
  | SetupFailedWithCode "int option" string
  | AgentSetupFailed js_error
  | VenvPythonNotUsable string js_error
  | FailedToSpawn js_error
  | SidecarSpawned string "nat option"
  | FailedToStartSidecar js_error
  | FetchNotAvailable
  | StartingSimulated
  | SimulatedProgress string nat
  | SimulatedCompleted string
  | FailedToCreate "int option"
  | NoTaskIdReturned
  | StartedTask json
  | NoResponsePolling json
  | TaskCompleted json
  | ErrorPolling json js_error
  | ErrorCreating js_error
  | FallingBack
  | NotFallingBack
  | ResetFetchNotAvailable
  | ResetFailed "int option"
  | ResetDone
  | ErrorReset js_error
  | Deactivating
  | KilledProcess "nat option"
  | ErrorKilling js_error
  | NoProcessToKill

text \<open>The texts given to \<^verbatim>\<open>vscode.window.showErrorMessage\<close>.\<close>

datatype notification =
    SetupStartFailed
  | SetupPythonNotFound
  | RuntimeSetupFailed
  | FailedToInitialize string
  | SidecarFailed
  | FailedToCreateTask js_error

text \<open>
  The handle of a child process. Its \<^verbatim>\<open>pid\<close> is undefined when the program could not
  be executed: \<^verbatim>\<open>spawn\<close> returns a handle all the same.
\<close>

datatype child = Child "nat option"

fun pid :: "child \<Rightarrow> nat option" where
  "pid (Child p) = p"

text \<open>
  A repeating timer made by \<^verbatim>\<open>setInterval\<close>, with what its callback closes over: the
  panel that the start command captured (\<^verbatim>\<open>panel\<close>, here the number of the panel), and
  the task polled (\<^verbatim>\<open>currentTaskId\<close>) or the identifier and the counter \<^verbatim>\<open>idx\<close> of a
  simulated run; and with its period in milliseconds. The handle returned by
  \<^verbatim>\<open>setInterval\<close> is the position in the list of timers; \<^verbatim>\<open>clearInterval\<close> turns
  \<open>active\<close> off.
\<close>

datatype closure = PollTask nat json | Simulated nat string nat

record interval =
  closure :: closure
  period :: nat
  active :: bool

text \<open>
  The module-level variables \<^verbatim>\<open>pythonProcess\<close> and \<^verbatim>\<open>dashboardPanel\<close>, and what the
  extension has done to the world around it:
  \<^item> \<open>workers\<close>, \<open>killed\<close>: the worker processes spawned, and those sent a signal;
  \<^item> \<open>setup_runs\<close>, \<open>version_checks\<close>: how often the setup script and the
    \<^verbatim>\<open>--version\<close> check of the interpreter were run;
  \<^item> \<open>panels\<close>: how many dashboard panels were created, numbered from 0; \<open>disposed\<close>:
    the panels that were closed; \<open>refreshed\<close>: the panels whose HTML was set again;
  \<^item> \<open>outputChannel\<close>, \<open>errorMessages\<close>: the lines logged and the notifications shown;
  \<^item> \<open>commands\<close>: the commands registered;
  \<^item> \<open>webview\<close>: the messages posted, each with the panel it went to;
  \<^item> \<open>pending\<close>: the start commands that wait for the answer to their
    \<^verbatim>\<open>POST /task\<close>, each with the panel it captured, \<open>None\<close> once it has gone on;
  \<^item> \<open>intervals\<close>: the timers; \<open>polls\<close>: the \<^verbatim>\<open>GET /task/{id}\<close> requests sent, each
    with the handle of the timer that sent it;
  \<^item> \<open>uncaught\<close>: the errors that left a command or a timer callback uncaught.
\<close>

record ext_state =
  pythonProcess :: "child option"
  workers :: "child list"
  killed :: "child list"
  setup_runs :: nat
  version_checks :: nat
  dashboardPanel :: "nat option"
  panels :: nat
  disposed :: "nat list"
  refreshed :: "nat list"
  outputChannel :: "log_line list"
  errorMessages :: "notification list"
  commands :: "string list"
  webview :: "(nat \<times> json) list"
  pending :: "nat option list"
  intervals :: "interval list"
  polls :: "(nat \<times> json) list"
  uncaught :: "js_error list"

definition appendLine :: "log_line \<Rightarrow> ext_state \<Rightarrow> ext_state" where
  "appendLine l s = s\<lparr> outputChannel := outputChannel s @ [l] \<rparr>"

definition showErrorMessage :: "notification \<Rightarrow> ext_state \<Rightarrow> ext_state" where
  "showErrorMessage n s = s\<lparr> errorMessages := errorMessages s @ [n] \<rparr>"

text \<open>
  \<^verbatim>\<open>panel.webview.postMessage(m)\<close> for the panel numbered \<open>p\<close>: reading \<^verbatim>\<open>panel.webview\<close>
  throws once the panel is closed.
\<close>

definition postMessage :: "nat \<Rightarrow> json \<Rightarrow> ext_state \<Rightarrow> js_error + ext_state" where
  "postMessage p m s =
     (if p \<in> set (disposed s) then Inl webview_disposed
      else Inr (s\<lparr> webview := webview s @ [(p, m)] \<rparr>))"

definition setInterval :: "closure \<Rightarrow> nat \<Rightarrow> ext_state \<Rightarrow> ext_state" where
  "setInterval c ms s =
     s\<lparr> intervals := intervals s @ [\<lparr> closure = c, period = ms, active = True \<rparr>] \<rparr>"

definition clearInterval :: "nat \<Rightarrow> ext_state \<Rightarrow> ext_state" where
  "clearInterval h s =
     (if h < length (intervals s)
      then s\<lparr> intervals := (intervals s)[h := (intervals s ! h)\<lparr> active := False \<rparr>] \<rparr>
      else s)"

text \<open>An error that nothing catches: it leaves the command or the callback.\<close>

definition escapes :: "js_error \<Rightarrow> ext_state \<Rightarrow> ext_state" where
  "escapes err s = s\<lparr> uncaught := uncaught s @ [err] \<rparr>"

text \<open>The state before activation.\<close>

definition fresh :: ext_state where
  "fresh =
     \<lparr> pythonProcess = None, workers = [], killed = [], setup_runs = 0, version_checks = 0,
       dashboardPanel = None, panels = 0, disposed = [], refreshed = [],
       outputChannel = [], errorMessages = [], commands = [], webview = [], pending = [],
       intervals = [], polls = [], uncaught = [] \<rparr>"

subsection \<open>The dashboard panel\<close>

text \<open>
  The command \<^verbatim>\<open>osae.openDashboard\<close>: a panel that exists is only revealed, otherwise a
  new panel is created and held. When the user closes the panel, the handler given to
  \<^verbatim>\<open>onDidDispose\<close> forgets it; the panel itself is disposed from then on.
\<close>

definition openDashboard :: "ext_state \<Rightarrow> ext_state" where
  "openDashboard s =
     (case dashboardPanel s of
        Some p \<Rightarrow> s
      | None \<Rightarrow> s\<lparr> dashboardPanel := Some (panels s), panels := panels s + 1 \<rparr>)"

definition closeDashboard :: "ext_state \<Rightarrow> ext_state" where
  "closeDashboard s =
     (case dashboardPanel s of
        Some p \<Rightarrow> s\<lparr> dashboardPanel := None, disposed := p # disposed s \<rparr>
      | None \<Rightarrow> s)"

subsection \<open>The simulated run\<close>

definition simulatedPlan :: "string list" where
  "simulatedPlan = [''Gather context'', ''Plan actions'', ''Execute steps'']"

definition sim_update :: "nat \<Rightarrow> json" where
  "sim_update idx =
     JObj [(''type'', JStr ''task_update''),
           (''data'', JObj [(''plan'', JArr (map JStr simulatedPlan)),
                            (''currentStepIndex'', JNum (int idx))])]"

definition sim_final :: "nat \<Rightarrow> json" where
  "sim_final idx =
     JObj [(''type'', JStr ''task_update''),
           (''data'', JObj [(''plan'', JArr (map JStr simulatedPlan)),
                            (''currentStepIndex'', JNum (int idx)),
                            (''status'', JStr ''completed''),
                            (''task_status'', JStr ''completed''),
                            (''state'', JStr ''completed'')])]"

definition sim_started :: "string \<Rightarrow> json" where
  "sim_started simTaskId =
     JObj [(''type'', JStr ''task_started''), (''task_id'', JStr simTaskId),
           (''prompt'', JStr ''Simulated run'')]"

text \<open>
  \<^verbatim>\<open>startSimulatedTask\<close> for the captured panel \<open>p\<close>, where \<open>now\<close> is the value of
  \<^verbatim>\<open>Date.now()\<close>. It is called from the \<^verbatim>\<open>catch\<close> of the start command only, so an error
  thrown in it leaves the command uncaught.
\<close>

definition startSimulatedTask :: "nat \<Rightarrow> nat \<Rightarrow> ext_state \<Rightarrow> ext_state" where
  "startSimulatedTask p now s =
     (case postMessage p (sim_started (''sim-'' @ decimal now)) (appendLine StartingSimulated s) of
        Inl err \<Rightarrow> escapes err (appendLine StartingSimulated s)
      | Inr s1 \<Rightarrow>
          (case postMessage p (sim_update 0) s1 of
             Inl err \<Rightarrow> escapes err s1
           | Inr s2 \<Rightarrow> setInterval (Simulated p (''sim-'' @ decimal now) 0) 1000 s2))"

text \<open>
  The callback of the simulated interval with handle \<open>h\<close>, whose closure holds the panel,
  \<open>simTaskId\<close> and \<open>idx\<close>: one tick. There is no \<^verbatim>\<open>try\<close> in it: an error thrown by a
  post ends the callback there, after \<^verbatim>\<open>idx++\<close>.
\<close>

definition sim_tick :: "nat \<Rightarrow> nat \<Rightarrow> string \<Rightarrow> nat \<Rightarrow> ext_state \<Rightarrow> ext_state" where
  "sim_tick h p simTaskId idx s =
     (let s1 = s\<lparr> intervals :=
                  (intervals s)[h := (intervals s ! h)\<lparr> closure := Simulated p simTaskId (idx + 1) \<rparr>] \<rparr>
      in case postMessage p (sim_update (idx + 1)) s1 of
           Inl err \<Rightarrow> escapes err s1
         | Inr s2 \<Rightarrow>
             if idx + 1 \<ge> length simulatedPlan - 1
             then (case postMessage p (sim_final (idx + 1))
                          (appendLine (SimulatedProgress simTaskId (idx + 1)) s2) of
                     Inl err \<Rightarrow> escapes err (appendLine (SimulatedProgress simTaskId (idx + 1)) s2)
                   | Inr s3 \<Rightarrow> clearInterval h (appendLine (SimulatedCompleted simTaskId) s3))
             else appendLine (SimulatedProgress simTaskId (idx + 1)) s2)"

subsection \<open>Starting a task and polling it\<close>

text \<open>
  \<^verbatim>\<open>const msg = (err && err.message) ? String(err.message) : String(err)\<close> and
  \<^verbatim>\<open>err && (err.name === 'AbortError' || /ECONNREFUSED|connect|failed to fetch|NetworkError/i.test(msg))\<close>
\<close>

definition error_text :: "js_error \<Rightarrow> string" where
  "error_text e = (if err_message e \<noteq> [] then err_message e else String_of e)"

definition isNetworkError :: "js_error \<Rightarrow> bool" where
  "isNetworkError e =
     (err_name e = ''AbortError''
      \<or> includes_str (toLowerCase (error_text e)) ''econnrefused''
      \<or> includes_str (toLowerCase (error_text e)) ''connect''
      \<or> includes_str (toLowerCase (error_text e)) ''failed to fetch''
      \<or> includes_str (toLowerCase (error_text e)) ''networkerror'')"

text \<open>
  The two builds of the extension differ in what the \<^verbatim>\<open>catch\<close> of the start command
  does: \<^verbatim>\<open>src/extension/src/extension.ts\<close> may fall back to a simulated run, the other
  build shows the error and never simulates.
\<close>

datatype build = WithFallback | FailLoud

definition start_catch :: "build \<Rightarrow> nat \<Rightarrow> js_error \<Rightarrow> nat \<Rightarrow> ext_state \<Rightarrow> ext_state" where
  "start_catch b p err now s =
     (case b of
        WithFallback \<Rightarrow>
          if isNetworkError err
          then startSimulatedTask p now (appendLine FallingBack (appendLine (ErrorCreating err) s))
          else appendLine NotFallingBack (appendLine (ErrorCreating err) s)
      | FailLoud \<Rightarrow>
          showErrorMessage (FailedToCreateTask err) (appendLine (ErrorCreating err) s))"

text \<open>\<^verbatim>\<open>data.task_id || data.id || data.taskId\<close>\<close>

definition taskId_of :: "json \<Rightarrow> json" where
  "taskId_of d = js_or (js_or (getp d ''task_id'') (getp d ''id'')) (getp d ''taskId'')"

text \<open>
  The command \<^verbatim>\<open>osae.start\<close> up to the point where it waits for the answer to
  \<^verbatim>\<open>POST /task\<close>: it opens the dashboard when none is held, captures the panel held, and
  gives up when there is no global \<^verbatim>\<open>fetch\<close>.
\<close>

definition osae_start :: "bool \<Rightarrow> ext_state \<Rightarrow> ext_state" where
  "osae_start has_fetch s0 =
     (let s = openDashboard s0 in
      case dashboardPanel s of
        None \<Rightarrow> s
      | Some p \<Rightarrow>
          if \<not> has_fetch then appendLine FetchNotAvailable s
          else s\<lparr> pending := pending s @ [Some p] \<rparr>)"

text \<open>
  The rest of the command, for the captured panel \<open>p\<close>, from the moment the request ends
  with \<open>out\<close> (the abort after 3000 ms is a rejection named \<^verbatim>\<open>AbortError\<close>). Everything
  from the request to \<^verbatim>\<open>setInterval\<close> is inside one \<^verbatim>\<open>try\<close>.
\<close>

definition osae_created :: "build \<Rightarrow> nat \<Rightarrow> fetch_outcome \<Rightarrow> nat \<Rightarrow> ext_state \<Rightarrow> ext_state" where
  "osae_created b p out now s =
     (case out of
        Rejected err \<Rightarrow> start_catch b p err now s
      | Resolved NoResponse \<Rightarrow> appendLine (FailedToCreate None) s
      | Resolved (Response ok status bd) \<Rightarrow>
          if \<not> ok then appendLine (FailedToCreate (Some status)) s
          else
            (case bd of
               BodyInvalid err \<Rightarrow> start_catch b p err now s
             | BodyJson d \<Rightarrow>
                 if nullish d then start_catch b p (null_read ''task_id'') now s
                 else if \<not> truthy (taskId_of d) then appendLine NoTaskIdReturned s
                 else
                   (case postMessage p
                           (JObj [(''type'', JStr ''task_started''), (''task_id'', taskId_of d)])
                           (appendLine (StartedTask (taskId_of d)) s) of
                      Inl err \<Rightarrow> start_catch b p err now (appendLine (StartedTask (taskId_of d)) s)
                    | Inr s1 \<Rightarrow> setInterval (PollTask p (taskId_of d)) 1000 s1)))"

text \<open>The answer to the request of the pending start numbered \<open>k\<close>.\<close>

definition created :: "build \<Rightarrow> nat \<Rightarrow> fetch_outcome \<Rightarrow> nat \<Rightarrow> ext_state \<Rightarrow> ext_state" where
  "created b k out now s =
     (if k < length (pending s)
      then (case pending s ! k of
              Some p \<Rightarrow> osae_created b p out now (s\<lparr> pending := (pending s)[k := None] \<rparr>)
            | None \<Rightarrow> s)
      else s)"

text \<open>
  \<^verbatim>\<open>json.task_status === 'completed' || json.status === 'completed' || json.state === 'completed'\<close>
\<close>

definition completed :: "json \<Rightarrow> bool" where
  "completed j =
     (getp j ''task_status'' = JStr ''completed''
      \<or> getp j ''status'' = JStr ''completed''
      \<or> getp j ''state'' = JStr ''completed'')"

text \<open>
  The callback of the poll interval with handle \<open>h\<close> for panel \<open>p\<close> and task \<open>t\<close>, from the
  moment its request ends. It does not look at whether its timer is still set: a request
  that was under way when the timer was cleared still reports. The update is posted
  before the test for completion, inside the same \<^verbatim>\<open>try\<close>.
\<close>

definition poll_tick :: "nat \<Rightarrow> nat \<Rightarrow> json \<Rightarrow> fetch_outcome \<Rightarrow> ext_state \<Rightarrow> ext_state" where
  "poll_tick h p t out s =
     (case out of
        Rejected err \<Rightarrow> appendLine (ErrorPolling t err) s
      | Resolved NoResponse \<Rightarrow> appendLine (NoResponsePolling t) s
      | Resolved (Response ok status bd) \<Rightarrow>
          (case bd of
             BodyInvalid err \<Rightarrow> appendLine (ErrorPolling t err) s
           | BodyJson j \<Rightarrow>
               (case postMessage p (JObj [(''type'', JStr ''task_update''), (''data'', j)]) s of
                  Inl err \<Rightarrow> appendLine (ErrorPolling t err) s
                | Inr s1 \<Rightarrow>
                    if nullish j then appendLine (ErrorPolling t (null_read ''task_status'')) s1
                    else if completed j then clearInterval h (appendLine (TaskCompleted t) s1)
                    else s1)))"

text \<open>
  The command \<^verbatim>\<open>osae.reset\<close>, which only the build without the fallback registers (the
  dashboard runs it too, when it receives \<^verbatim>\<open>osae.reset\<close> from its page): \<open>out\<close> is how
  \<^verbatim>\<open>POST /reset\<close> ends. After a success the HTML of the dashboard held is set again.
\<close>

definition osae_reset :: "bool \<Rightarrow> fetch_outcome \<Rightarrow> ext_state \<Rightarrow> ext_state" where
  "osae_reset has_fetch out s =
     (if \<not> has_fetch then appendLine ResetFetchNotAvailable s
      else
        (case out of
           Rejected err \<Rightarrow> appendLine (ErrorReset err) s
         | Resolved NoResponse \<Rightarrow> appendLine (ResetFailed None) s
         | Resolved (Response ok status bd) \<Rightarrow>
             if \<not> ok then appendLine (ResetFailed (Some status)) s
             else
               (case dashboardPanel s of
                  Some p \<Rightarrow> (appendLine ResetDone s)\<lparr> refreshed := refreshed s @ [p] \<rparr>
                | None \<Rightarrow> appendLine ResetDone s)))"

text \<open>
  What happens in the extension once it is active. The user opens or closes the
  dashboard, or runs the start command. \<open>Created k out now\<close>: the creation request of the
  pending start \<open>k\<close> ends with \<open>out\<close> at time \<open>now\<close>. \<open>Fire h\<close>: timer \<open>h\<close> goes off, which a
  cleared timer never does; a poll timer then sends its \<^verbatim>\<open>GET /task/{id}\<close>, a simulated
  one runs its whole callback. \<open>Answer h out\<close>: a request sent by poll timer \<open>h\<close> ends with
  \<open>out\<close> and the rest of the callback runs. \<open>Reset has_fetch out\<close>: the reset command is
  run and its request ends with \<open>out\<close>; the build with the fallback has no such command.
\<close>

datatype event =
    OpenDashboard
  | CloseDashboard
  | Start bool
  | Created nat fetch_outcome nat
  | Fire nat
  | Answer nat fetch_outcome
  | Reset bool fetch_outcome

definition fire :: "nat \<Rightarrow> ext_state \<Rightarrow> ext_state" where
  "fire h s =
     (if h < length (intervals s) \<and> active (intervals s ! h)
      then (case closure (intervals s ! h) of
              PollTask p t \<Rightarrow> s\<lparr> polls := polls s @ [(h, t)] \<rparr>
            | Simulated p simTaskId idx \<Rightarrow> sim_tick h p simTaskId idx s)
      else s)"

definition answer :: "nat \<Rightarrow> fetch_outcome \<Rightarrow> ext_state \<Rightarrow> ext_state" where
  "answer h out s =
     (if h < length (intervals s)
      then (case closure (intervals s ! h) of
              PollTask p t \<Rightarrow> poll_tick h p t out s
            | Simulated p simTaskId idx \<Rightarrow> s)
      else s)"

fun step :: "build \<Rightarrow> ext_state \<Rightarrow> event \<Rightarrow> ext_state" where
  "step b s OpenDashboard = openDashboard s"
| "step b s CloseDashboard = closeDashboard s"
| "step b s (Start has_fetch) = osae_start has_fetch s"
| "step b s (Created k out now) = created b k out now s"
| "step b s (Fire h) = fire h s"
| "step b s (Answer h out) = answer h out s"
| "step b s (Reset has_fetch out) =
     (case b of FailLoud \<Rightarrow> osae_reset has_fetch out s | WithFallback \<Rightarrow> s)"

definition run :: "build \<Rightarrow> ext_state \<Rightarrow> event list \<Rightarrow> ext_state" where
  "run b s evs = foldl (step b) s evs"

text \<open>Whether timer \<open>h\<close> is set, and the handles of the poll timers that are set.\<close>

definition is_poll :: "interval \<Rightarrow> bool" where
  "is_poll i = (case closure i of PollTask p t \<Rightarrow> True | Simulated p simTaskId idx \<Rightarrow> False)"

definition active_at :: "nat \<Rightarrow> ext_state \<Rightarrow> bool" where
  "active_at h s = (h < length (intervals s) \<and> active (intervals s ! h))"

definition active_polls :: "ext_state \<Rightarrow> nat list" where
  "active_polls s =
     filter (\<lambda>h. active (intervals s ! h) \<and> is_poll (intervals s ! h)) [0 ..< length (intervals s)]"

subsection \<open>Activation with the pinned interpreter\<close>

text \<open>
  What activation finds outside the program: the path of the interpreter of the bundled
  environment, whether a file is there (\<^verbatim>\<open>fs.existsSync\<close>), how the first-run setup
  script ends when it is run, what \<^verbatim>\<open>spawnSync(pythonExe, ['--version'])\<close> gives, and
  what \<^verbatim>\<open>spawn\<close> of the worker gives.

  The child that runs the setup script has a listener for \<^verbatim>\<open>error\<close> and one for
  \<^verbatim>\<open>close\<close>. Node emits \<^verbatim>\<open>close\<close> for every child, also after the \<^verbatim>\<open>error\<close> of a child
  that could not be spawned (with a negative code then), so the outcome is: an error or
  none, and then the close with the exit code (a number or \<^verbatim>\<open>null\<close>), the text written
  to the error stream and whether the interpreter exists at that moment.

  The exit status of the version check is a number or \<^verbatim>\<open>null\<close>. \<^verbatim>\<open>spawn\<close> throws for
  a few system errors only; for a program that is missing or cannot be executed it
  returns a handle without \<^verbatim>\<open>pid\<close>.
\<close>

datatype setup_outcome = SetupOutcome "js_error option" "int option" string bool

datatype check_outcome = CheckThrew js_error | CheckStatus "int option"

datatype spawn_outcome = SpawnThrew js_error | Spawned "nat option"

record launch_env =
  pythonExe :: string
  venv_exists :: bool
  setup_script :: setup_outcome
  version_check :: check_outcome
  worker_spawn :: spawn_outcome

definition show_code :: "int option \<Rightarrow> string" where
  "show_code c =
     (case c of None \<Rightarrow> ''null''
      | Some n \<Rightarrow> (if n < 0 then ''-'' @ decimal (nat (- n)) else decimal (nat n)))"

text \<open>
  The two listeners of the setup child. Each returns how it settles the promise of
  \<^verbatim>\<open>ensureAgentServerSetup\<close> (\<open>Inl\<close> rejects, \<open>Inr\<close> resolves) and the state it leaves.
\<close>

definition on_setup_error :: "js_error \<Rightarrow> ext_state \<Rightarrow> (js_error + unit) \<times> ext_state" where
  "on_setup_error err s =
     (Inl err, showErrorMessage SetupStartFailed (appendLine (SetupSpawnFailed err) s))"

definition on_setup_close ::
  "string \<Rightarrow> int option \<Rightarrow> string \<Rightarrow> bool \<Rightarrow> ext_state \<Rightarrow> (js_error + unit) \<times> ext_state" where
  "on_setup_close exe code stderr exists_after s =
     (if code = Some 0 then
        (if \<not> exists_after then
           (Inl \<lparr> err_name = ''Error'', err_message = ''venv python missing after setup'' \<rparr>,
            showErrorMessage SetupPythonNotFound
              (appendLine (SetupPythonStillMissing exe) (appendLine SetupCompleted s)))
         else (Inr (), appendLine SetupCompleted s))
      else
        (Inl \<lparr> err_name = ''Error'',
               err_message =
                 (if stderr \<noteq> [] then stderr else ''setup exited with code '' @ show_code code) \<rparr>,
         showErrorMessage RuntimeSetupFailed (appendLine (SetupFailedWithCode code stderr) s)))"

text \<open>
  \<^verbatim>\<open>ensureAgentServerSetup\<close>. A promise keeps the first settlement: after an \<^verbatim>\<open>error\<close>
  the \<^verbatim>\<open>close\<close> listener still runs, writes and notifies, but what it settles is
  dropped. The lines that only echo the output of the script are left out.
\<close>

definition ensureAgentServerSetup :: "launch_env \<Rightarrow> ext_state \<Rightarrow> (js_error + unit) \<times> ext_state" where
  "ensureAgentServerSetup env s =
     (if venv_exists env then (Inr (), appendLine (FoundVenvPython (pythonExe env)) s)
      else
        (case setup_script env of
           SetupOutcome None code stderr exists_after \<Rightarrow>
             on_setup_close (pythonExe env) code stderr exists_after
               ((appendLine RunningSetupScript (appendLine VenvPythonMissing s))
                  \<lparr> setup_runs := setup_runs s + 1 \<rparr>)
         | SetupOutcome (Some err) code stderr exists_after \<Rightarrow>
             (Inl err,
              snd (on_setup_close (pythonExe env) code stderr exists_after
                     (snd (on_setup_error err
                             ((appendLine RunningSetupScript (appendLine VenvPythonMissing s))
                                \<lparr> setup_runs := setup_runs s + 1 \<rparr>)))))))"

text \<open>
  The inner \<^verbatim>\<open>try\<close> of \<^verbatim>\<open>spawnPythonServer\<close>: the version check of the pinned
  interpreter. Its \<^verbatim>\<open>catch\<close> writes a line and throws the error again.
\<close>

definition check_venv_python :: "launch_env \<Rightarrow> ext_state \<Rightarrow> (js_error + unit) \<times> ext_state" where
  "check_venv_python env s =
     (case version_check env of
        CheckThrew err \<Rightarrow>
          (Inl err,
           appendLine (VenvPythonNotUsable (pythonExe env) err)
             (s\<lparr> version_checks := version_checks s + 1 \<rparr>))
      | CheckStatus st \<Rightarrow>
          if st \<noteq> Some 0 then
            (Inl \<lparr> err_name = ''Error'',
                   err_message = ''venv python not found or not executable at '' @ pythonExe env \<rparr>,
             appendLine
               (VenvPythonNotUsable (pythonExe env)
                  \<lparr> err_name = ''Error'',
                    err_message = ''venv python not found or not executable at '' @ pythonExe env \<rparr>)
               (s\<lparr> version_checks := version_checks s + 1 \<rparr>))
          else (Inr (), s\<lparr> version_checks := version_checks s + 1 \<rparr>))"

text \<open>The outer \<^verbatim>\<open>try\<close> block of \<^verbatim>\<open>spawnPythonServer\<close>: \<open>Inl\<close> is an error thrown in it.\<close>

definition spawnPythonServer_try ::
  "launch_env \<Rightarrow> ext_state \<Rightarrow> (js_error + child option) \<times> ext_state" where
  "spawnPythonServer_try env s =
     (case check_venv_python env s of
        (Inl err, s1) \<Rightarrow> (Inl err, s1)
      | (Inr u, s1) \<Rightarrow>
          (case worker_spawn env of
             SpawnThrew err \<Rightarrow> (Inl err, s1)
           | Spawned p \<Rightarrow>
               (Inr (Some (Child p)),
                appendLine (SidecarSpawned (pythonExe env) p)
                  (s1\<lparr> pythonProcess := Some (Child p), workers := workers s1 @ [Child p] \<rparr>))))"

text \<open>\<^verbatim>\<open>spawnPythonServer\<close>: the outer \<^verbatim>\<open>catch\<close> writes a line and returns
  \<^verbatim>\<open>undefined\<close>. The result is still typed as something that may throw, since the
  caller wraps the call in a \<^verbatim>\<open>try\<close>.\<close>

definition spawnPythonServer ::
  "launch_env \<Rightarrow> ext_state \<Rightarrow> (js_error + child option) \<times> ext_state" where
  "spawnPythonServer env s =
     (case spawnPythonServer_try env s of
        (Inl err, s1) \<Rightarrow> (Inr None, appendLine (FailedToSpawn err) s1)
      | (Inr p, s1) \<Rightarrow> (Inr p, s1))"

text \<open>The three commands that activation registers, after the worker was dealt with.\<close>

definition registerCommands :: "ext_state \<Rightarrow> ext_state" where
  "registerCommands s =
     s\<lparr> commands := commands s @ [''osae.openDashboard'', ''osae.start'', ''osae.reset''] \<rparr>"

text \<open>\<^verbatim>\<open>activate\<close>. The health check two seconds later only writes to the output
  channel and is left out.\<close>

definition activate :: "launch_env \<Rightarrow> ext_state \<Rightarrow> ext_state" where
  "activate env s0 =
     (case ensureAgentServerSetup env (appendLine Activating s0) of
        (Inl err, s1) \<Rightarrow>
          showErrorMessage (FailedToInitialize (error_text err))
            (appendLine (AgentSetupFailed err) s1)
      | (Inr u, s1) \<Rightarrow>
          (case spawnPythonServer env s1 of
             (Inr p, s2) \<Rightarrow> registerCommands (s2\<lparr> pythonProcess := p \<rparr>)
           | (Inl err, s2) \<Rightarrow>
               registerCommands
                 ((showErrorMessage SidecarFailed
                     (appendLine (FailedToStartSidecar err) s2))\<lparr> pythonProcess := None \<rparr>)))"

subsection \<open>Deactivation\<close>

text \<open>\<^verbatim>\<open>pythonProcess.kill()\<close> returns whether the signal was delivered (false for a
  process that has exited) or throws.\<close>

datatype kill_outcome = KillReturned bool | KillThrew js_error

text \<open>The \<^verbatim>\<open>try\<close> block inside \<^verbatim>\<open>deactivate\<close>.\<close>

definition kill_try :: "child \<Rightarrow> kill_outcome \<Rightarrow> ext_state \<Rightarrow> js_error + ext_state" where
  "kill_try c k s =
     (case k of
        KillThrew err \<Rightarrow> Inl err
      | KillReturned delivered \<Rightarrow>
          Inr (appendLine (KilledProcess (pid c)) (s\<lparr> killed := killed s @ [c] \<rparr>)))"

text \<open>\<^verbatim>\<open>deactivate\<close>; \<open>Inl\<close> would be an error that escapes it.\<close>

definition deactivate :: "kill_outcome \<Rightarrow> ext_state \<Rightarrow> js_error + ext_state" where
  "deactivate k s0 =
     (let s = appendLine Deactivating s0 in
      case pythonProcess s of
        Some c \<Rightarrow>
          (case kill_try c k s of
             Inr s1 \<Rightarrow> Inr (s1\<lparr> pythonProcess := None \<rparr>)
           | Inl err \<Rightarrow> Inr ((appendLine (ErrorKilling err) s)\<lparr> pythonProcess := None \<rparr>))
      | None \<Rightarrow> Inr (appendLine NoProcessToKill s))"

subsection \<open>Runs of the extension\<close>

text \<open>
  An event in which the callback of poll timer \<open>h\<close> reaches its test for completion with
  JSON for which the test holds: the answer to one of its requests.
\<close>

fun completes :: "nat \<Rightarrow> event \<Rightarrow> bool" where
  "completes h (Answer h' (Resolved (Response ok status (BodyJson j)))) = (h' = h \<and> completed j)"
| "completes h ev = False"

text \<open>How often timer \<open>h\<close> goes from set to cleared along a run.\<close>

fun cancellations :: "build \<Rightarrow> nat \<Rightarrow> ext_state \<Rightarrow> event list \<Rightarrow> nat" where
  "cancellations b h s [] = 0"
| "cancellations b h s (ev # evs) =
     (if active_at h s \<and> \<not> active_at h (step b s ev) then 1 else 0)
       + cancellations b h (step b s ev) evs"

text \<open>Answers of a worker that is up, for the examples: \<^verbatim>\<open>200 {"task_id": tid}\<close> to the
  creation of a task, and \<^verbatim>\<open>200\<close> with a JSON object to a poll. And the rejection of a
  request that was aborted by the timeout of the start command.\<close>

definition task_created :: "string \<Rightarrow> fetch_outcome" where
  "task_created tid = Resolved (Response True 200 (BodyJson (JObj [(''task_id'', JStr tid)])))"

definition reports :: "(string \<times> json) list \<Rightarrow> fetch_outcome" where
  "reports kvs = Resolved (Response True 200 (BodyJson (JObj kvs)))"

definition aborted :: fetch_outcome where
  "aborted = Rejected \<lparr> err_name = ''AbortError'', err_message = ''This operation was aborted'' \<rparr>"

text \<open>The state in which one task has been created and is polled, with the dashboard
  open; and what then happens when the user closes the dashboard before the worker
  reports the task as completed.\<close>

definition one_task :: ext_state where
  "one_task = run WithFallback fresh [Start True, Created 0 (task_created ''abc123'') 0]"

definition closed_before_completion :: "event list" where
  "closed_before_completion =
     [Fire 0, Answer 0 (reports [(''status'', JStr ''running'')]),
      CloseDashboard,
      Fire 0, Answer 0 (reports [(''task_status'', JStr ''completed'')]),
      Fire 0, Answer 0 (reports [(''task_status'', JStr ''completed'')])]"

text \<open>The state after a start whose creation request was aborted by the timeout, at
  time 1700, in the build with the fallback.\<close>

definition simulated_start :: ext_state where
  "simulated_start = run WithFallback fresh [Start True, Created 0 aborted 1700]"

subsection \<open>Launch failures\<close>

text \<open>
  The two ways in which the pinned interpreter can fail activation. It is missing and
  stays missing: no file is there and the first-run setup does not end well (the child
  reports an error, or exits with a code other than 0, or leaves no interpreter). It is
  there (or was just set up) but unusable: the version check throws or does not exit
  with status 0.
\<close>

definition setup_fails :: "launch_env \<Rightarrow> bool" where
  "setup_fails env =
     (\<not> venv_exists env \<and>
      (case setup_script env of
         SetupOutcome err code stderr exists_after \<Rightarrow>
           err \<noteq> None \<or> code \<noteq> Some 0 \<or> \<not> exists_after))"

definition version_check_fails :: "launch_env \<Rightarrow> bool" where
  "version_check_fails env =
     (case version_check env of CheckThrew err \<Rightarrow> True | CheckStatus st \<Rightarrow> st \<noteq> Some 0)"

text \<open>Three machines for the examples: one where the interpreter of the bundled
  environment exits with status 1 on \<^verbatim>\<open>--version\<close>; one where it does not exist and the
  setup script exits with status 1; one where it does not exist and the setup script
  cannot even be spawned.\<close>

definition unusable_interpreter :: launch_env where
  "unusable_interpreter =
     \<lparr> pythonExe = ''agent-server/venv/bin/python'', venv_exists = True,
       setup_script = SetupOutcome None (Some 0) [] True, version_check = CheckStatus (Some 1),
       worker_spawn = Spawned (Some 4242) \<rparr>"

definition missing_interpreter :: launch_env where
  "missing_interpreter =
     \<lparr> pythonExe = ''agent-server/venv/bin/python'', venv_exists = False,
       setup_script = SetupOutcome None (Some 1) ''python3: command not found'' False,
       version_check = CheckStatus None, worker_spawn = Spawned None \<rparr>"

definition missing_shell :: launch_env where
  "missing_shell =
     \<lparr> pythonExe = ''agent-server/venv/bin/python'', venv_exists = False,
       setup_script =
         SetupOutcome (Some \<lparr> err_name = ''Error'', err_message = ''spawn bash ENOENT'' \<rparr>)
           (Some (- 2)) [] False,
       version_check = CheckStatus None, worker_spawn = Spawned None \<rparr>"

subsection \<open>A success response that is not JSON\<close>

text \<open>
  A worker that answers the creation of a task with status 200 and the plain text
  \<^verbatim>\<open>connection pool exhausted\<close>: \<^verbatim>\<open>res.json()\<close> rejects with the syntax error of
  \<^verbatim>\<open>JSON.parse\<close>, whose message in V8 quotes the start of the text.
\<close>

definition json_parse_error :: js_error where
  "json_parse_error =
     \<lparr> err_name = ''SyntaxError'',
       err_message = ''Unexpected token '' @ [CHR 0x27] @ ''c'' @ [CHR 0x27] @ '', ''
                      @ [CHR 0x22] @ ''connection'' @ [CHR 0x22] @ ''... is not valid JSON'' \<rparr>"

definition unparsable_success :: fetch_outcome where
  "unparsable_success = Resolved (Response True 200 (BodyInvalid json_parse_error))"

text \<open>The error thrown inside the \<^verbatim>\<open>try\<close> of the start command before anything is
  posted, if any: by the request, by reading the body, or by reading the identifier out
  of a \<^verbatim>\<open>null\<close> body.\<close>

fun thrown :: "fetch_outcome \<Rightarrow> js_error option" where
  "thrown (Rejected err) = Some err"
| "thrown (Resolved (Response True status (BodyInvalid err))) = Some err"
| "thrown (Resolved (Response True status (BodyJson d))) =
     (if nullish d then Some (null_read ''task_id'') else None)"
| "thrown out = None"

section \<open>Properties of the string tests\<close>

lemma includes_str_iff: "includes_str s pat \<longleftrightarrow> (\<exists>ps ss. s = ps @ pat @ ss)"
proof (induction s)
  case Nil
  then show ?case by auto
next
  case (Cons c cs)
  show ?case
  proof
    assume "includes_str (c # cs) pat"
    then consider "take (length pat) (c # cs) = pat" | "includes_str cs pat" by auto
    then show "\<exists>ps ss. c # cs = ps @ pat @ ss"
    proof cases
      case 1
      then have "c # cs = [] @ pat @ drop (length pat) (c # cs)"
        by (metis append_Nil append_take_drop_id)
      then show ?thesis by blast
    next
      case 2
      then obtain ps ss where "cs = ps @ pat @ ss" using Cons.IH by blast
      then have "c # cs = (c # ps) @ pat @ ss" by simp
      then show ?thesis by blast
    qed
  next
    assume "\<exists>ps ss. c # cs = ps @ pat @ ss"
    then obtain ps ss where eq: "c # cs = ps @ pat @ ss" by blast
    show "includes_str (c # cs) pat"
    proof (cases ps)
      case Nil
      with eq have "take (length pat) (c # cs) = pat" by simp
      then show ?thesis by simp
    next
      case (Cons p ps')
      with eq have "cs = ps' @ pat @ ss" by simp
      then have "includes_str cs pat" using Cons.IH by blast
      then show ?thesis by simp
    qed
  qed
qed

lemma includes_str_map:
  "includes_str (map f s) pat \<longleftrightarrow> (\<exists>ps t ss. s = ps @ t @ ss \<and> map f t = pat)"
proof
  assume "includes_str (map f s) pat"
  then obtain ps' ss' where "map f s = ps' @ pat @ ss'"
    unfolding includes_str_iff by blast
  then obtain us vs where s: "s = us @ vs" and vs: "pat @ ss' = map f vs"
    unfolding map_eq_append_conv by blast
  obtain t ss where "vs = t @ ss" and "pat = map f t"
    using vs unfolding append_eq_map_conv by blast
  with s show "\<exists>ps t ss. s = ps @ t @ ss \<and> map f t = pat" by blast
next
  assume "\<exists>ps t ss. s = ps @ t @ ss \<and> map f t = pat"
  then obtain ps t ss where "s = ps @ t @ ss" and "map f t = pat" by blast
  then have "map f s = map f ps @ pat @ map f ss" by simp
  then show "includes_str (map f s) pat"
    unfolding includes_str_iff by blast
qed

lemma toLowerCase_examples:
  "toLowerCase ''Executor: AZ az 09 @['' = ''executor: az az 09 @[''"
  "includes_str ''abc'' ''bc''"
  "\<not> includes_str ''abc'' ''ac''"
  "includes_str ''abc'' []"
  by code_simp+

lemma isPaused_iff:
  "isPausedForApproval n \<longleftrightarrow>
     (\<exists>s ps t ss. n = Some s \<and> s = ps @ t @ ss \<and> toLowerCase t = ''executor'')"
  by (cases n) (simp_all add: isPausedForApproval_def toLowerCase_def includes_str_map)

section \<open>The snapshot of the dashboard\<close>

subsection \<open>How one field is picked\<close>



lemma pick_string_held:
  "\<not> is_string (getp m k) \<Longrightarrow> \<not> is_string (getp r k) \<Longrightarrow> pick_string m r k held = held"
  by (cases "getp m k"; cases "getp r k") (simp_all add: pick_string_def)










lemma handler_fields [simp]:
  "prompt (handler d e) = pick_string (msg_of e) (raw_of e) ''prompt'' (prompt d)"
  "plan (handler d e) = pick_array (msg_of e) (raw_of e) ''plan'' (plan d)"
  "currentStepIndex (handler d e)
     = pick_number (msg_of e) (raw_of e) ''currentStepIndex'' (currentStepIndex d)"
  "artifacts (handler d e) = pick_array (msg_of e) (raw_of e) ''artifacts'' (artifacts d)"
  "next' (handler d e) = pick_string (msg_of e) (raw_of e) ''next'' (next' d)"
  "taskId (handler d e) = pick_string (msg_of e) (raw_of e) ''taskId'' (taskId d)"
  "proposedToolCall (handler d e)
     = pick_proposedToolCall (msg_of e) (raw_of e) (proposedToolCall d)"
  "thought_trace (handler d e)
     = pick_string (msg_of e) (raw_of e) ''thought_trace'' (thought_trace d)"
  "active_model (handler d e)
     = pick_string (msg_of e) (raw_of e) ''active_model'' (active_model d)"
  by (simp_all add: handler_def)



lemma envelope:
  "raw_of (JObj [(''type'', JStr ty), (''data'', JObj kvs)])
     = JObj [(''type'', JStr ty), (''data'', JObj kvs)]"
  "msg_of (JObj [(''type'', JStr ty), (''data'', JObj kvs)]) = JObj kvs"
  by (simp_all add: msg_of_def raw_of_def coalesce_def)

lemma envelope_keys:
  "k \<noteq> ''type'' \<Longrightarrow> k \<noteq> ''data'' \<Longrightarrow>
     getp (JObj [(''type'', JStr ty), (''data'', JObj kvs)]) k = JUndefined"
  by simp

text \<open>The reducer at work: on an update that carries every field, on a bare payload, on a
  field that only the envelope carries, and on an event without data.\<close>

lemma handler_examples:
  "handler paused_snapshot full_update
     = \<lparr> prompt = Some ''p'', plan = Some [JStr ''s1'', JStr ''s2''], currentStepIndex = Some 1,
         artifacts = Some [JObj [(''filename'', JStr ''a.txt'')]], next' = Some ''planner'',
         taskId = Some ''t9'', proposedToolCall = Some ''run()'',
         thought_trace = Some ''thinking'', active_model = Some ''m1'' \<rparr>"
  "map (\<lambda>(k, field). field (handler paused_snapshot full_update)) string_fields
     = [Some ''p'', Some ''planner'', Some ''t9'', Some ''thinking'', Some ''m1'']"
  "map (\<lambda>(k, field). field (handler paused_snapshot full_update)) array_fields
     = [Some [JStr ''s1'', JStr ''s2''], Some [JObj [(''filename'', JStr ''a.txt'')]]]"
  "handler4 (first_four paused_snapshot) full_update
     = \<lparr> prompt4 = Some ''p'', plan4 = Some [JStr ''s1'', JStr ''s2''],
         currentStepIndex4 = Some 1,
         artifacts4 = Some [JObj [(''filename'', JStr ''a.txt'')]] \<rparr>"
  "handler paused_snapshot (JObj [(''prompt'', JStr ''q'')]) = paused_snapshot\<lparr> prompt := Some ''q'' \<rparr>"
  "handler paused_snapshot (JObj [(''prompt'', JStr ''env''), (''data'', JObj [(''plan'', JArr [])])])
     = paused_snapshot\<lparr> prompt := Some ''env'', plan := Some [] \<rparr>"
  "handler paused_snapshot JNull = paused_snapshot"
  "handler paused_snapshot JUndefined = paused_snapshot"
  "handler paused_snapshot (JObj [(''artifacts'', JArr [JStr ''x''])])
     = paused_snapshot\<lparr> artifacts := Some [JStr ''x''] \<rparr>"
  "handler initial_data (JObj [])
     = \<lparr> prompt = Some [], plan = Some [], currentStepIndex = Some 0, artifacts = Some [],
         next' = None, taskId = None, proposedToolCall = None, thought_trace = None,
         active_model = None \<rparr>"
  by code_simp+

subsection \<open>Field-level merge\<close>




subsection \<open>Fields of the wrong type\<close>





subsection \<open>The approval gate\<close>

lemma approval_error_untouched: "handler d (approval_error m) = d"
  by (simp add: handler_def approval_error_def envelope
      pick_string_def pick_array_def pick_number_def pick_proposedToolCall_def artifact_call_def)

lemma approved_untouched:
  "handler (d\<lparr> taskId := Some t \<rparr>)
     (JObj [(''type'', JStr ''approval:approved''), (''data'', JObj [(''taskId'', JStr t)])])
   = d\<lparr> taskId := Some t \<rparr>"
  by (simp add: handler_def envelope
      pick_string_def pick_array_def pick_number_def pick_proposedToolCall_def artifact_call_def)

lemma rejected_untouched:
  "handler (d\<lparr> taskId := Some t \<rparr>)
     (JObj [(''type'', JStr ''approval:rejected''),
            (''data'', JObj [(''taskId'', JStr t), (''feedback'', JStr feedback)])])
   = d\<lparr> taskId := Some t \<rparr>"
  by (simp add: handler_def envelope
      pick_string_def pick_array_def pick_number_def pick_proposedToolCall_def artifact_call_def)

lemma approved_next:
  "next' (handler d
     (JObj [(''type'', JStr ''approval:approved''), (''data'', JObj [(''taskId'', JStr t)])]))
   = next' d"
  by (simp add: envelope pick_string_def)

lemma rejected_next:
  "next' (handler d
     (JObj [(''type'', JStr ''approval:rejected''),
            (''data'', JObj [(''taskId'', JStr t), (''feedback'', JStr feedback)])]))
   = next' d"
  by (simp add: envelope pick_string_def)

lemma approve_posts:
  "(\<exists>e. snd (handleApprove d f) = [approval_error e])
   \<or> (\<exists>t. taskId d = Some t \<and> snd (handleApprove d f) =
         [JObj [(''type'', JStr ''approval:approved''), (''data'', JObj [(''taskId'', JStr t)])]])"
  by (auto simp: handleApprove_def split: option.splits decision_fetch.splits)

lemma reject_posts:
  "(\<exists>e. snd (handleReject d feedback f) = [approval_error e])
   \<or> (\<exists>t. taskId d = Some t \<and> snd (handleReject d feedback f) =
         [JObj [(''type'', JStr ''approval:rejected''),
                (''data'', JObj [(''taskId'', JStr t), (''feedback'', JStr feedback)])]])"
  by (auto simp: handleReject_def split: option.splits decision_fetch.splits)

text \<open>The two buttons at work: the request sent and the message posted, when the request
  ends well, when it fails, and when the snapshot holds no task identifier or an empty
  one.\<close>

lemma decision_examples:
  "handleApprove paused_snapshot DecisionResolved
     = ([\<lparr> req_task = ''abc123'', req_body = JObj [(''approved'', JBool True)] \<rparr>],
        [JObj [(''type'', JStr ''approval:approved''), (''data'', JObj [(''taskId'', JStr ''abc123'')])]])"
  "handleReject paused_snapshot ''no'' DecisionResolved
     = ([\<lparr> req_task = ''abc123'',
            req_body = JObj [(''approved'', JBool False), (''feedback'', JStr ''no'')] \<rparr>],
        [JObj [(''type'', JStr ''approval:rejected''),
               (''data'', JObj [(''taskId'', JStr ''abc123''), (''feedback'', JStr ''no'')])]])"
  "handleApprove paused_snapshot
       (DecisionRejected \<lparr> err_name = ''TypeError'', err_message = ''Failed to fetch'' \<rparr>)
     = ([\<lparr> req_task = ''abc123'', req_body = JObj [(''approved'', JBool True)] \<rparr>],
        [JObj [(''type'', JStr ''approval:error''),
               (''data'', JObj [(''message'', JStr ''TypeError: Failed to fetch'')])]])"
  "handleReject paused_snapshot ''no''
       (DecisionRejected \<lparr> err_name = ''TypeError'', err_message = ''Failed to fetch'' \<rparr>)
     = ([\<lparr> req_task = ''abc123'',
            req_body = JObj [(''approved'', JBool False), (''feedback'', JStr ''no'')] \<rparr>],
        [JObj [(''type'', JStr ''approval:error''),
               (''data'', JObj [(''message'', JStr ''TypeError: Failed to fetch'')])]])"
  "handleApprove initial_data DecisionResolved
     = ([], [JObj [(''type'', JStr ''approval:error''),
                   (''data'', JObj [(''message'', JStr ''taskId missing for approval'')])]])"
  "handleReject (paused_snapshot\<lparr> taskId := Some [] \<rparr>) ''no'' DecisionResolved
     = ([], [JObj [(''type'', JStr ''approval:error''),
                   (''data'', JObj [(''message'', JStr ''taskId missing for rejection'')])]])"
  "approval_shown (paused_snapshot\<lparr> next' := Some ''run EXECUTOR now'' \<rparr>)"
  "\<not> approval_shown (paused_snapshot\<lparr> next' := Some ''execute'' \<rparr>)"
  "\<not> approval_shown initial_data"
  "ui_step paused_snapshot Reloaded = (initial_data, [])"
  by code_simp+

lemma approve_messages:
  assumes "m \<in> set (snd (handleApprove d f))"
  shows "next' (handler d' m) = next' d' \<and> handler d m = d"
proof -
  consider e where "m = approval_error e"
    | t where "taskId d = Some t"
        "m = JObj [(''type'', JStr ''approval:approved''), (''data'', JObj [(''taskId'', JStr t)])]"
    using approve_posts[of d f] assms by auto
  then show ?thesis
  proof cases
    case 1
    then show ?thesis by (simp add: approval_error_untouched)
  next
    case 2
    have "d\<lparr> taskId := Some t \<rparr> = d" using 2(1) by simp
    then show ?thesis
      using approved_untouched[where d=d and t=t] approved_next[where d=d' and t=t] 2(2)
      by simp
  qed
qed

lemma reject_messages:
  assumes "m \<in> set (snd (handleReject d feedback f))"
  shows "next' (handler d' m) = next' d' \<and> handler d m = d"
proof -
  consider e where "m = approval_error e"
    | t where "taskId d = Some t"
        "m = JObj [(''type'', JStr ''approval:rejected''),
                   (''data'', JObj [(''taskId'', JStr t), (''feedback'', JStr feedback)])]"
    using reject_posts[of d feedback f] assms by auto
  then show ?thesis
  proof cases
    case 1
    then show ?thesis by (simp add: approval_error_untouched)
  next
    case 2
    have "d\<lparr> taskId := Some t \<rparr> = d" using 2(1) by simp
    then show ?thesis
      using rejected_untouched[where d=d and t=t and feedback=feedback]
        rejected_next[where d=d' and t=t and feedback=feedback] 2(2)
      by simp
  qed
qed

lemma delivered_back: "\<forall>m \<in> set ms. handler d m = d \<Longrightarrow> foldl handler d ms = d"
  by (induction ms) simp_all

lemma decision_step:
  assumes "is_decision ev"
  shows "foldl handler (fst (ui_step d ev)) (snd (ui_step d ev)) = d"
proof (cases ev)
  case (Approve f)
  then show ?thesis using approve_messages[where d=d and f=f] by (simp add: delivered_back)
next
  case (Reject feedback f)
  then show ?thesis
    using reject_messages[where d=d and f=f and feedback=feedback] by (simp add: delivered_back)
qed (use assms in simp_all)

lemma decisions_run: "\<forall>ev \<in> set evs. is_decision ev \<Longrightarrow> ui_run d evs = d"
  by (induction evs) (simp_all add: decision_step)

lemma next_after_handler:
  "next' (handler d e) =
     (case getp (msg_of e) ''next'' of JStr s \<Rightarrow> Some s
      | _ \<Rightarrow> (case getp (raw_of e) ''next'' of JStr s \<Rightarrow> Some s | _ \<Rightarrow> next' d))"
  by (simp add: pick_string_def)

lemma gate_cleared_by_message:
  assumes "approval_shown d" and "\<not> approval_shown (handler d e)"
  shows "\<exists>s. (getp (msg_of e) ''next'' = JStr s \<or> getp (raw_of e) ''next'' = JStr s)
              \<and> next' (handler d e) = Some s \<and> \<not> isPausedForApproval (Some s)"
  using assms unfolding approval_shown_def next_after_handler
  by (cases "getp (msg_of e) ''next''"; cases "getp (raw_of e) ''next''") auto

text \<open>
  Claim C4. The approval card is shown exactly when the \<open>next\<close> field of the snapshot held
  is a string that contains \<^verbatim>\<open>executor\<close> in any mix of upper and lower case. Submitting
  a decision changes nothing: approving and rejecting leave the snapshot as it is, the
  messages they post to the window leave it as it is when the listener receives them
  (and leave \<open>next\<close> alone in whatever snapshot they meet), so after any number of
  decisions the snapshot and the gate are what they were. A message without a string
  \<open>next\<close> leaves the gate as it is. And when the gate is up before an event and down
  after it, the event is not a decision: it is a message that put a string without
  \<^verbatim>\<open>executor\<close> into \<open>next\<close>, or the page was loaded anew and holds no \<open>next\<close>.
\<close>

theorem approval_gate:
  "(approval_shown d \<longleftrightarrow>
      (\<exists>s ps t ss. next' d = Some s \<and> s = ps @ t @ ss \<and> toLowerCase t = ''executor''))
   \<and> fst (ui_step d (Approve f)) = d
   \<and> fst (ui_step d (Reject feedback f)) = d
   \<and> (\<forall>m \<in> set (snd (ui_step d (Approve f))) \<union> set (snd (ui_step d (Reject feedback f))).
         handler d m = d \<and> approval_shown (handler d' m) = approval_shown d')
   \<and> ((\<forall>ev \<in> set evs. is_decision ev) \<longrightarrow> ui_run d evs = d)
   \<and> (\<not> is_string (getp (msg_of e) ''next'') \<and> \<not> is_string (getp (raw_of e) ''next'') \<longrightarrow>
         approval_shown (handler d e) = approval_shown d)
   \<and> (approval_shown d \<and> \<not> approval_shown (fst (ui_step d ev)) \<longrightarrow>
         \<not> is_decision ev
         \<and> ((ev = Reloaded \<and> next' (fst (ui_step d ev)) = None)
            \<or> (\<exists>e' s. ev = Message e'
                  \<and> (getp (msg_of e') ''next'' = JStr s \<or> getp (raw_of e') ''next'' = JStr s)
                  \<and> next' (fst (ui_step d ev)) = Some s \<and> \<not> isPausedForApproval (Some s))))"
proof (intro conjI)
  show "approval_shown d \<longleftrightarrow>
      (\<exists>s ps t ss. next' d = Some s \<and> s = ps @ t @ ss \<and> toLowerCase t = ''executor'')"
    unfolding approval_shown_def by (rule isPaused_iff)
  show "fst (ui_step d (Approve f)) = d" by simp
  show "fst (ui_step d (Reject feedback f)) = d" by simp
  show "\<forall>m \<in> set (snd (ui_step d (Approve f))) \<union> set (snd (ui_step d (Reject feedback f))).
         handler d m = d \<and> approval_shown (handler d' m) = approval_shown d'"
    using approve_messages[where d=d and f=f and d'=d']
      reject_messages[where d=d and feedback=feedback and f=f and d'=d']
    by (auto simp: approval_shown_def)
  show "(\<forall>ev \<in> set evs. is_decision ev) \<longrightarrow> ui_run d evs = d"
    using decisions_run by blast
  show "\<not> is_string (getp (msg_of e) ''next'') \<and> \<not> is_string (getp (raw_of e) ''next'') \<longrightarrow>
         approval_shown (handler d e) = approval_shown d"
    by (simp add: approval_shown_def pick_string_held)
  show "approval_shown d \<and> \<not> approval_shown (fst (ui_step d ev)) \<longrightarrow>
         \<not> is_decision ev
         \<and> ((ev = Reloaded \<and> next' (fst (ui_step d ev)) = None)
            \<or> (\<exists>e' s. ev = Message e'
                  \<and> (getp (msg_of e') ''next'' = JStr s \<or> getp (raw_of e') ''next'' = JStr s)
                  \<and> next' (fst (ui_step d ev)) = Some s \<and> \<not> isPausedForApproval (Some s)))"
  proof (cases ev)
    case (Message e')
    show ?thesis
    proof
      assume a: "approval_shown d \<and> \<not> approval_shown (fst (ui_step d ev))"
      then have "\<exists>s. (getp (msg_of e') ''next'' = JStr s \<or> getp (raw_of e') ''next'' = JStr s)
              \<and> next' (handler d e') = Some s \<and> \<not> isPausedForApproval (Some s)"
        using gate_cleared_by_message[of d e'] Message by simp
      then show "\<not> is_decision ev
         \<and> ((ev = Reloaded \<and> next' (fst (ui_step d ev)) = None)
            \<or> (\<exists>e' s. ev = Message e'
                  \<and> (getp (msg_of e') ''next'' = JStr s \<or> getp (raw_of e') ''next'' = JStr s)
                  \<and> next' (fst (ui_step d ev)) = Some s \<and> \<not> isPausedForApproval (Some s)))"
        using Message by auto
    qed
  next
    case (Approve f')
    then show ?thesis by simp
  next
    case (Reject feedback' f')
    then show ?thesis by simp
  next
    case Reloaded
    then show ?thesis by (simp add: initial_data_def)
  qed
qed

text \<open>
  The claim at work. The dashboard holds \<open>next\<close> = \<^verbatim>\<open>Executor\<close> and the gate is up. The
  user approves: the snapshot is the same, the message posted is received without a
  change, and the gate is still up after an approval and a rejection in a row. An
  update with a plan only keeps the gate up; the update with \<open>next\<close> = \<^verbatim>\<open>Planner\<close> takes
  it down.
\<close>

theorem approval_gate_witness:
  "approval_shown paused_snapshot
   \<and> fst (ui_step paused_snapshot (Approve DecisionResolved)) = paused_snapshot
   \<and> snd (ui_step paused_snapshot (Approve DecisionResolved))
       = [JObj [(''type'', JStr ''approval:approved''),
                (''data'', JObj [(''taskId'', JStr ''abc123'')])]]
   \<and> handler paused_snapshot
         (JObj [(''type'', JStr ''approval:approved''),
                (''data'', JObj [(''taskId'', JStr ''abc123'')])]) = paused_snapshot
   \<and> approval_shown
         (ui_run paused_snapshot [Approve DecisionResolved, Reject ''no'' DecisionResolved])
   \<and> approval_shown (handler paused_snapshot
         (JObj [(''type'', JStr ''task_update''),
                (''data'', JObj [(''plan'', JArr [JStr ''Gather context''])])]))
   \<and> \<not> approval_shown (handler paused_snapshot
         (JObj [(''type'', JStr ''task_update''), (''data'', JObj [(''next'', JStr ''Planner'')])]))
   \<and> getp (msg_of (JObj [(''type'', JStr ''task_update''),
                          (''data'', JObj [(''next'', JStr ''Planner'')])])) ''next''
       = JStr ''Planner''"
proof -
  let ?ok = "JObj [(''type'', JStr ''approval:approved''),
                   (''data'', JObj [(''taskId'', JStr ''abc123'')])]"
  let ?plan = "JObj [(''type'', JStr ''task_update''),
                     (''data'', JObj [(''plan'', JArr [JStr ''Gather context''])])]"
  let ?next = "JObj [(''type'', JStr ''task_update''),
                     (''data'', JObj [(''next'', JStr ''Planner'')])]"
  let ?ds = "[Approve DecisionResolved, Reject ''no'' DecisionResolved]"
  have shown: "approval_shown paused_snapshot" by code_simp
  have posted: "snd (ui_step paused_snapshot (Approve DecisionResolved)) = [?ok]"
    by (simp add: handleApprove_def paused_snapshot_def)
  have cleared: "\<not> approval_shown (handler paused_snapshot ?next)" by code_simp
  have n: "getp (msg_of ?next) ''next'' = JStr ''Planner''" by (simp add: envelope)
  have untyped: "\<not> is_string (getp (msg_of ?plan) ''next'')
      \<and> \<not> is_string (getp (raw_of ?plan) ''next'')"
    by (simp add: envelope)
  have ds: "\<forall>ev \<in> set ?ds. is_decision ev" by simp
  note th = approval_gate[of paused_snapshot DecisionResolved "[]" paused_snapshot ?ds ?plan
                             "Message ?next"]
  have 1: "fst (ui_step paused_snapshot (Approve DecisionResolved)) = paused_snapshot"
    using th[THEN conjunct2, THEN conjunct1] .
  have 2: "handler paused_snapshot ?ok = paused_snapshot"
    using th[THEN conjunct2, THEN conjunct2, THEN conjunct2, THEN conjunct1] posted by simp
  have 3: "ui_run paused_snapshot ?ds = paused_snapshot"
    using th[THEN conjunct2, THEN conjunct2, THEN conjunct2, THEN conjunct2, THEN conjunct1] ds
    by blast
  have 4: "approval_shown (handler paused_snapshot ?plan)"
    using th[THEN conjunct2, THEN conjunct2, THEN conjunct2, THEN conjunct2, THEN conjunct2,
             THEN conjunct1] untyped shown
    by blast
  have 5: "\<not> is_decision (Message ?next)"
    using th[THEN conjunct2, THEN conjunct2, THEN conjunct2, THEN conjunct2, THEN conjunct2,
             THEN conjunct2] shown cleared
    by simp
  from shown posted cleared n 1 2 3 4 5 show ?thesis by simp
qed

section \<open>Deactivation\<close>

text \<open>
  Claim C9. Terminating the worker is idempotent. Whatever the state (no worker was ever
  started, the worker has exited, the worker runs) and however \<^verbatim>\<open>kill\<close> ends (it
  delivers the signal, it reports an exited process, it throws), \<open>deactivate\<close> returns
  without an error and leaves no process handle; called again at once it returns
  without an error too, kills nothing and only writes that there is no process to kill.
\<close>

theorem deactivate_idempotent:
  "\<exists>s1 s2. deactivate k1 s = Inr s1 \<and> pythonProcess s1 = None
      \<and> deactivate k2 s1 = Inr s2 \<and> pythonProcess s2 = None
      \<and> killed s2 = killed s1 \<and> workers s2 = workers s
      \<and> outputChannel s2 = outputChannel s1 @ [Deactivating, NoProcessToKill]"
  by (cases k1; cases "pythonProcess s")
     (simp_all add: deactivate_def kill_try_def appendLine_def Let_def)

section \<open>Timers of the extension\<close>

subsection \<open>What each operation does to the timers and to the requests sent\<close>

lemma completed_not_nullish: "completed j \<Longrightarrow> \<not> nullish j"
  by (cases j) (simp_all add: completed_def)

lemma appendLine_simps [simp]:
  "intervals (appendLine l s) = intervals s"
  "polls (appendLine l s) = polls s"
  "disposed (appendLine l s) = disposed s"
  "webview (appendLine l s) = webview s"
  "uncaught (appendLine l s) = uncaught s"
  "outputChannel (appendLine l s) = outputChannel s @ [l]"
  by (simp_all add: appendLine_def)

lemma showErrorMessage_simps [simp]:
  "intervals (showErrorMessage n s) = intervals s"
  "polls (showErrorMessage n s) = polls s"
  "disposed (showErrorMessage n s) = disposed s"
  "webview (showErrorMessage n s) = webview s"
  "uncaught (showErrorMessage n s) = uncaught s"
  by (simp_all add: showErrorMessage_def)

lemma escapes_simps [simp]:
  "intervals (escapes err s) = intervals s"
  "polls (escapes err s) = polls s"
  "disposed (escapes err s) = disposed s"
  "webview (escapes err s) = webview s"
  "uncaught (escapes err s) = uncaught s @ [err]"
  by (simp_all add: escapes_def)

lemma setInterval_simps [simp]:
  "intervals (setInterval c ms s) = intervals s @ [\<lparr> closure = c, period = ms, active = True \<rparr>]"
  "polls (setInterval c ms s) = polls s"
  "disposed (setInterval c ms s) = disposed s"
  "webview (setInterval c ms s) = webview s"
  "uncaught (setInterval c ms s) = uncaught s"
  by (simp_all add: setInterval_def)

lemma clearInterval_simps [simp]:
  "polls (clearInterval h s) = polls s"
  "disposed (clearInterval h s) = disposed s"
  "webview (clearInterval h s) = webview s"
  "uncaught (clearInterval h s) = uncaught s"
  by (simp_all add: clearInterval_def)

lemma intervals_clearInterval:
  "intervals (clearInterval h s) =
     (if h < length (intervals s) then (intervals s)[h := (intervals s ! h)\<lparr> active := False \<rparr>]
      else intervals s)"
  by (simp add: clearInterval_def)

lemma postMessage_open:
  "p \<notin> set (disposed s) \<Longrightarrow> postMessage p m s = Inr (s\<lparr> webview := webview s @ [(p, m)] \<rparr>)"
  by (simp add: postMessage_def)

lemma postMessage_closed: "p \<in> set (disposed s) \<Longrightarrow> postMessage p m s = Inl webview_disposed"
  by (simp add: postMessage_def)

lemma postMessage_Inr:
  "postMessage p m s = Inr s' \<Longrightarrow>
     p \<notin> set (disposed s) \<and> intervals s' = intervals s \<and> polls s' = polls s
     \<and> disposed s' = disposed s \<and> webview s' = webview s @ [(p, m)] \<and> uncaught s' = uncaught s"
  by (auto simp: postMessage_def split: if_splits)

lemma dashboard_simps [simp]:
  "intervals (openDashboard s) = intervals s"
  "polls (openDashboard s) = polls s"
  "disposed (openDashboard s) = disposed s"
  "intervals (closeDashboard s) = intervals s"
  "polls (closeDashboard s) = polls s"
  by (simp_all add: openDashboard_def closeDashboard_def split: option.splits)

lemma osae_reset_simps [simp]:
  "intervals (osae_reset has_fetch out s) = intervals s"
  "polls (osae_reset has_fetch out s) = polls s"
  "disposed (osae_reset has_fetch out s) = disposed s"
  by (simp_all add: osae_reset_def
      split: fetch_outcome.splits response.splits option.splits)

lemma osae_start_simps [simp]:
  "intervals (osae_start has_fetch s) = intervals s"
  "polls (osae_start has_fetch s) = polls s"
  "disposed (osae_start has_fetch s) = disposed s"
  by (simp_all add: osae_start_def Let_def split: option.splits)

lemma startSimulatedTask_timers:
  "intervals (startSimulatedTask p now s) =
     intervals s @
       (if p \<in> set (disposed s) then []
        else [\<lparr> closure = Simulated p (''sim-'' @ decimal now) 0, period = 1000, active = True \<rparr>])"
  "polls (startSimulatedTask p now s) = polls s"
  by (simp_all add: startSimulatedTask_def postMessage_def)

lemma start_catch_timers:
  "intervals (start_catch b p err now s) =
     intervals s @
       (if b = WithFallback \<and> isNetworkError err \<and> p \<notin> set (disposed s)
        then [\<lparr> closure = Simulated p (''sim-'' @ decimal now) 0, period = 1000, active = True \<rparr>]
        else [])"
  "polls (start_catch b p err now s) = polls s"
  by (cases b; simp add: start_catch_def startSimulatedTask_timers)+

lemma null_read_not_network: "\<not> isNetworkError (null_read ''task_id'')"
  by (simp add: isNetworkError_def null_read_def error_text_def toLowerCase_def lower_char_def)

lemma webview_disposed_not_network: "\<not> isNetworkError webview_disposed"
  by (simp add: isNetworkError_def webview_disposed_def error_text_def toLowerCase_def
      lower_char_def)

lemma osae_created_timers:
  "\<exists>ext. intervals (osae_created b p out now s) = intervals s @ ext \<and> length ext \<le> 1"
  "polls (osae_created b p out now s) = polls s"
  by (simp_all add: osae_created_def start_catch_timers postMessage_def
      split: fetch_outcome.splits response.splits body.splits)

lemma osae_created_success:
  assumes "p \<notin> set (disposed s)" and "ok" and "\<not> nullish d" and "truthy (taskId_of d)"
  shows "intervals (osae_created b p (Resolved (Response ok status (BodyJson d))) now s) =
           intervals s @ [\<lparr> closure = PollTask p (taskId_of d), period = 1000, active = True \<rparr>]"
  using assms by (simp add: osae_created_def postMessage_def)

lemma created_timers:
  "\<exists>ext. intervals (created b k out now s) = intervals s @ ext \<and> length ext \<le> 1"
  "polls (created b k out now s) = polls s"
proof -
  show "\<exists>ext. intervals (created b k out now s) = intervals s @ ext \<and> length ext \<le> 1"
  proof (cases "k < length (pending s)")
    case True
    show ?thesis
    proof (cases "pending s ! k")
      case None
      with True show ?thesis by (simp add: created_def)
    next
      case (Some p)
      with True show ?thesis
        using osae_created_timers(1)[of b p out now "s\<lparr> pending := (pending s)[k := None] \<rparr>"]
        by (simp add: created_def)
    qed
  next
    case False
    then show ?thesis by (simp add: created_def)
  qed
  show "polls (created b k out now s) = polls s"
    by (simp add: created_def osae_created_timers(2) split: option.splits)
qed

lemma created_success:
  assumes "k < length (pending s)" and "pending s ! k = Some p" and "p \<notin> set (disposed s)"
    and "ok" and "\<not> nullish d" and "truthy (taskId_of d)"
  shows "intervals (created b k (Resolved (Response ok status (BodyJson d))) now s) =
           intervals s @ [\<lparr> closure = PollTask p (taskId_of d), period = 1000, active = True \<rparr>]"
  using assms by (simp add: created_def osae_created_success)

lemma sim_tick_timers:
  "length (intervals (sim_tick h' p i n s)) = length (intervals s)"
  "h \<noteq> h' \<Longrightarrow> intervals (sim_tick h' p i n s) ! h = intervals s ! h"
  "polls (sim_tick h' p i n s) = polls s"
  by (simp_all add: sim_tick_def Let_def postMessage_def intervals_clearInterval)

lemma length_fire [simp]: "length (intervals (fire h' s)) = length (intervals s)"
  by (simp add: fire_def sim_tick_timers split: closure.splits)

lemma length_answer [simp]: "length (intervals (answer h' out s)) = length (intervals s)"
  by (simp add: answer_def poll_tick_def postMessage_def intervals_clearInterval
      split: closure.splits fetch_outcome.splits response.splits body.splits)

lemma fire_poll_timer:
  assumes "h < length (intervals s)" and "closure (intervals s ! h) = PollTask p t"
  shows "intervals (fire h' s) ! h = intervals s ! h"
proof (cases "h' = h")
  case True
  with assms show ?thesis by (simp add: fire_def)
next
  case False
  then show ?thesis by (simp add: fire_def sim_tick_timers split: closure.splits)
qed

lemma completes_same_handle: "completes h (Answer h' out) \<Longrightarrow> h' = h"
  by (cases "(h, Answer h' out)" rule: completes.cases) simp_all

lemma completes_is_answer: "completes h ev \<Longrightarrow> \<exists>out. ev = Answer h out"
  by (cases "(h, ev)" rule: completes.cases) simp_all

lemma answer_poll_timer:
  assumes "h < length (intervals s)" and "closure (intervals s ! h) = PollTask p t"
  shows "intervals (answer h' out s) ! h =
           (if completes h (Answer h' out) \<and> p \<notin> set (disposed s)
            then (intervals s ! h)\<lparr> active := False \<rparr>
            else intervals s ! h)"
proof (cases "h' = h")
  case True
  with assms show ?thesis
    by (auto simp: answer_def poll_tick_def postMessage_def intervals_clearInterval
        completed_not_nullish
        split: fetch_outcome.splits response.splits body.splits)
next
  case False
  then have "\<not> completes h (Answer h' out)"
    using completes_same_handle by blast
  with False show ?thesis
    by (auto simp: answer_def poll_tick_def postMessage_def intervals_clearInterval
        split: closure.splits fetch_outcome.splits response.splits body.splits)
qed

text \<open>
  One step, seen from a poll timer: it stays the timer of its panel and its task, and it
  is set afterwards exactly if it was set before and the step is not a completed answer
  to it that arrives while its panel is open.
\<close>

lemma step_poll_timer:
  assumes "h < length (intervals s)" and "closure (intervals s ! h) = PollTask p t"
  shows "h < length (intervals (step b s ev))
       \<and> closure (intervals (step b s ev) ! h) = PollTask p t
       \<and> period (intervals (step b s ev) ! h) = period (intervals s ! h)
       \<and> (active (intervals (step b s ev) ! h) \<longleftrightarrow>
            active (intervals s ! h) \<and> \<not> (completes h ev \<and> p \<notin> set (disposed s)))"
proof (cases ev)
  case OpenDashboard
  with assms show ?thesis by simp
next
  case CloseDashboard
  with assms show ?thesis by simp
next
  case (Start has_fetch)
  with assms show ?thesis by simp
next
  case (Created k out now)
  obtain ext where "intervals (created b k out now s) = intervals s @ ext"
    using created_timers(1) by blast
  with assms Created show ?thesis by (simp add: nth_append)
next
  case (Fire h')
  with assms show ?thesis by (simp add: fire_poll_timer)
next
  case (Answer h' out)
  with assms show ?thesis by (simp add: answer_poll_timer)
next
  case (Reset has_fetch out)
  with assms show ?thesis by (cases b) simp_all
qed

lemma disposed_step: "set (disposed s) \<subseteq> set (disposed (step b s ev))"
proof (cases ev)
  case CloseDashboard
  then show ?thesis by (auto simp: closeDashboard_def split: option.splits)
next
  case (Created k out now)
  have "disposed (osae_created b p out now s') = disposed s'" for p s'
    by (cases b)
       (simp_all add: osae_created_def start_catch_def startSimulatedTask_def postMessage_def
          split: fetch_outcome.splits response.splits body.splits)
  then show ?thesis using Created by (simp add: created_def split: option.splits)
next
  case (Fire h)
  have "disposed (sim_tick h p i n s) = disposed s" for p i n
    by (simp add: sim_tick_def Let_def postMessage_def)
  then show ?thesis using Fire by (simp add: fire_def split: closure.splits)
next
  case (Answer h out)
  then show ?thesis
    by (simp add: answer_def poll_tick_def postMessage_def
        split: closure.splits fetch_outcome.splits response.splits body.splits)
next
  case (Reset has_fetch out)
  then show ?thesis by (cases b) simp_all
qed simp_all

lemma run_Cons: "run b s (ev # evs) = run b (step b s ev) evs"
  by (simp add: run_def)

lemma run_append: "run b s (xs @ ys) = run b (run b s xs) ys"
  by (simp add: run_def)

lemma disposed_run: "set (disposed s) \<subseteq> set (disposed (run b s evs))"
proof (induction evs arbitrary: s)
  case Nil
  then show ?case by (simp add: run_def)
next
  case (Cons ev evs)
  then show ?case using disposed_step[of s b ev] by (fastforce simp: run_Cons)
qed

lemma run_poll_timer:
  assumes "h < length (intervals s)" and "closure (intervals s ! h) = PollTask p t"
  shows "h < length (intervals (run b s evs))
       \<and> closure (intervals (run b s evs) ! h) = PollTask p t
       \<and> period (intervals (run b s evs) ! h) = period (intervals s ! h)
       \<and> (\<not> active (intervals s ! h) \<longrightarrow> \<not> active (intervals (run b s evs) ! h))
       \<and> ((\<forall>ev \<in> set evs. \<not> completes h ev) \<longrightarrow>
            active (intervals (run b s evs) ! h) = active (intervals s ! h))"
  using assms
proof (induction evs arbitrary: s)
  case Nil
  then show ?case by (simp add: run_def)
next
  case (Cons ev evs)
  note st = step_poll_timer[OF Cons.prems, of b ev]
  from st have 1: "h < length (intervals (step b s ev))"
    and 2: "closure (intervals (step b s ev) ! h) = PollTask p t" by blast+
  show ?case using Cons.IH[OF 1 2] st by (auto simp: run_Cons)
qed

text \<open>Once the panel of a poll timer is closed, nothing that happens clears the timer.\<close>

lemma poll_timer_after_close:
  assumes "h < length (intervals s)" and "closure (intervals s ! h) = PollTask p t"
    and "p \<in> set (disposed s)"
  shows "active (intervals (run b s evs) ! h) = active (intervals s ! h)"
  using assms
proof (induction evs arbitrary: s)
  case Nil
  then show ?case by (simp add: run_def)
next
  case (Cons ev evs)
  note st = step_poll_timer[OF Cons.prems(1,2), of b ev]
  from st have 1: "h < length (intervals (step b s ev))"
    and 2: "closure (intervals (step b s ev) ! h) = PollTask p t" by blast+
  have 3: "p \<in> set (disposed (step b s ev))" using Cons.prems(3) disposed_step by blast
  show ?case using Cons.IH[OF 1 2 3] st Cons.prems(3) by (simp add: run_Cons)
qed

lemma cancellations_poll_timer:
  assumes "h < length (intervals s)" and "closure (intervals s ! h) = PollTask p t"
  shows "cancellations b h s evs \<le> 1
       \<and> (cancellations b h s evs = 1 \<longleftrightarrow>
            active (intervals s ! h) \<and> \<not> active (intervals (run b s evs) ! h))"
  using assms
proof (induction evs arbitrary: s)
  case Nil
  then show ?case by (simp add: run_def)
next
  case (Cons ev evs)
  note st = step_poll_timer[OF Cons.prems, of b ev]
  from st have 1: "h < length (intervals (step b s ev))"
    and 2: "closure (intervals (step b s ev) ! h) = PollTask p t" by blast+
  note rn = run_poll_timer[OF 1 2, of b evs]
  show ?case
    using Cons.IH[OF 1 2] st rn Cons.prems(1) by (auto simp: active_at_def run_Cons)
qed

lemma polls_answer [simp]: "polls (answer h out s) = polls s"
  by (simp add: answer_def poll_tick_def postMessage_def
      split: closure.splits fetch_outcome.splits response.splits body.splits)

lemma polls_fire:
  "polls (fire h s) =
     polls s @ (if active_at h s then
                  (case closure (intervals s ! h) of PollTask p t \<Rightarrow> [(h, t)]
                   | Simulated p i n \<Rightarrow> [])
                else [])"
  by (simp add: fire_def active_at_def sim_tick_timers split: closure.splits)

lemma polls_fire_inactive:
  assumes "\<not> active_at h s"
  shows "\<exists>ext. polls (fire h' s) = polls s @ ext \<and> filter (\<lambda>q. fst q = h) ext = []"
proof (cases "active_at h' s")
  case True
  with assms have ne: "h' \<noteq> h" by auto
  show ?thesis
    by (cases "closure (intervals s ! h')") (simp_all add: polls_fire True ne)
next
  case False
  then show ?thesis by (simp add: polls_fire)
qed

lemma polls_step_inactive:
  assumes "\<not> active_at h s"
  shows "filter (\<lambda>q. fst q = h) (polls (step b s ev)) = filter (\<lambda>q. fst q = h) (polls s)"
proof (cases ev)
  case (Created k out now)
  then show ?thesis by (simp add: created_timers(2))
next
  case (Fire h')
  obtain ext where "polls (fire h' s) = polls s @ ext" and "filter (\<lambda>q. fst q = h) ext = []"
    using polls_fire_inactive[OF assms] by blast
  with Fire show ?thesis by simp
next
  case (Reset has_fetch out)
  then show ?thesis by (cases b) simp_all
qed simp_all

lemma polls_run_inactive:
  assumes "h < length (intervals s)" and "closure (intervals s ! h) = PollTask p t"
    and "\<not> active (intervals s ! h)"
  shows "filter (\<lambda>q. fst q = h) (polls (run b s evs)) = filter (\<lambda>q. fst q = h) (polls s)"
  using assms
proof (induction evs arbitrary: s)
  case Nil
  then show ?case by (simp add: run_def)
next
  case (Cons ev evs)
  have st: "h < length (intervals (step b s ev))"
       "closure (intervals (step b s ev) ! h) = PollTask p t"
       "\<not> active (intervals (step b s ev) ! h)"
    using step_poll_timer[OF Cons.prems(1,2), of b ev] Cons.prems(3) by auto
  have "\<not> active_at h s" using Cons.prems(3) by (simp add: active_at_def)
  then have "filter (\<lambda>q. fst q = h) (polls (step b s ev)) = filter (\<lambda>q. fst q = h) (polls s)"
    by (rule polls_step_inactive)
  then show ?case using Cons.IH[OF st] by (simp add: run_Cons)
qed

lemma one_task_state:
  "intervals one_task = [\<lparr> closure = PollTask 0 (JStr ''abc123''), period = 1000, active = True \<rparr>]"
  "disposed one_task = []"
  "polls one_task = []"
  "pending one_task = [None]"
  "dashboardPanel one_task = Some 0"
  by (simp_all add: one_task_def run_def task_created_def fresh_def osae_start_def
      openDashboard_def created_def osae_created_def postMessage_def taskId_of_def js_or_def
      appendLine_def setInterval_def Let_def)

text \<open>The callback of the poll loop on the answers that carry no status: no response
  at all, and a body that is the JSON \<^verbatim>\<open>null\<close>, which is posted to the dashboard
  before the read of its status throws. And the identifier of the task as the start
  command takes it from the answer: the first of \<open>task_id\<close>, \<open>id\<close> and \<open>taskId\<close> that is
  truthy.\<close>

lemma poll_tick_examples:
  "outputChannel (answer 0 (Resolved NoResponse) one_task)
     = [StartedTask (JStr ''abc123''), NoResponsePolling (JStr ''abc123'')]"
  "webview (answer 0 (Resolved NoResponse) one_task) = webview one_task"
  "outputChannel (answer 0 (Resolved (Response True 200 (BodyJson JNull))) one_task)
     = [StartedTask (JStr ''abc123''),
        ErrorPolling (JStr ''abc123'') (null_read ''task_status'')]"
  "webview (answer 0 (Resolved (Response True 200 (BodyJson JNull))) one_task)
     = [(0, JObj [(''type'', JStr ''task_started''), (''task_id'', JStr ''abc123'')]),
        (0, JObj [(''type'', JStr ''task_update''), (''data'', JNull)])]"
  "webview (answer 0 (reports [(''state'', JStr ''completed'')]) one_task)
     = [(0, JObj [(''type'', JStr ''task_started''), (''task_id'', JStr ''abc123'')]),
        (0, JObj [(''type'', JStr ''task_update''),
                  (''data'', JObj [(''state'', JStr ''completed'')])])]"
  "outputChannel (answer 0 (reports [(''state'', JStr ''completed'')]) one_task)
     = [StartedTask (JStr ''abc123''), TaskCompleted (JStr ''abc123'')]"
  by code_simp+

lemma taskId_of_examples:
  "taskId_of (JObj [(''id'', JStr ''x'')]) = JStr ''x''"
  "taskId_of (JObj [(''taskId'', JNum 7)]) = JNum 7"
  "taskId_of (JObj [(''task_id'', JStr []), (''id'', JNum 0), (''taskId'', JStr ''z'')]) = JStr ''z''"
  "taskId_of (JObj [(''task_id'', JStr ''a''), (''id'', JStr ''b'')]) = JStr ''a''"
  "\<not> truthy (taskId_of (JObj [(''task_id'', JNull)]))"
  by (simp_all add: taskId_of_def js_or_def)

text \<open>The start command without a global \<^verbatim>\<open>fetch\<close>, and the \<^verbatim>\<open>catch\<close> of the build
  without the fallback on a request that was aborted.\<close>

lemma osae_start_examples:
  "run b fresh [Start False]
     = fresh\<lparr> dashboardPanel := Some 0, panels := 1, outputChannel := [FetchNotAvailable] \<rparr>"
  "run b fresh [Start True]
     = fresh\<lparr> dashboardPanel := Some 0, panels := 1, pending := [Some 0] \<rparr>"
  "run b fresh [OpenDashboard, CloseDashboard, Start True]
     = fresh\<lparr> dashboardPanel := Some 1, panels := 2, disposed := [0], pending := [Some 1] \<rparr>"
  "run FailLoud fresh [Start True, Created 0 aborted now]
     = fresh\<lparr> dashboardPanel := Some 0, panels := 1, pending := [None],
              outputChannel :=
                [ErrorCreating \<lparr> err_name = ''AbortError'',
                                  err_message = ''This operation was aborted'' \<rparr>],
              errorMessages :=
                [FailedToCreateTask \<lparr> err_name = ''AbortError'',
                                       err_message = ''This operation was aborted'' \<rparr>] \<rparr>"
  "run b fresh [Start True, Created 0 (task_created ''a'') now, Created 0 (task_created ''b'') now]
     = run b fresh [Start True, Created 0 (task_created ''a'') now]"
  "run b fresh [Created 0 (task_created ''a'') now] = fresh"
  by (simp_all add: run_def fresh_def osae_start_def openDashboard_def closeDashboard_def
      created_def osae_created_def aborted_def task_created_def start_catch_def taskId_of_def
      js_or_def postMessage_def setInterval_def appendLine_def showErrorMessage_def Let_def)

text \<open>The reset command of the build without the fallback writes a line and, after a
  success, sets the HTML of the dashboard again; it leaves every timer as it is.\<close>

lemma osae_reset_examples:
  "outputChannel (step FailLoud one_task (Reset True (Resolved (Response True 200 (BodyJson JNull)))))
     = [StartedTask (JStr ''abc123''), ResetDone]"
  "refreshed (step FailLoud one_task (Reset True (Resolved (Response True 200 (BodyJson JNull)))))
     = [0]"
  "refreshed (step FailLoud (closeDashboard one_task)
                (Reset True (Resolved (Response True 200 (BodyJson JNull))))) = []"
  "outputChannel (step FailLoud (closeDashboard one_task)
                (Reset True (Resolved (Response True 200 (BodyJson JNull)))))
     = [StartedTask (JStr ''abc123''), ResetDone]"
  by code_simp+

lemma osae_reset_failures:
  "step FailLoud s (Reset True (Resolved (Response False status bd)))
     = appendLine (ResetFailed (Some status)) s"
  "step FailLoud s (Reset True (Resolved NoResponse)) = appendLine (ResetFailed None) s"
  "step FailLoud s (Reset True (Rejected e)) = appendLine (ErrorReset e) s"
  "step FailLoud s (Reset False out) = appendLine ResetFetchNotAvailable s"
  "step WithFallback s (Reset has_fetch out) = s"
  by (simp_all add: osae_reset_def)

lemma osae_reset_timers:
  "intervals (step b s (Reset has_fetch out)) = intervals s"
  "polls (step b s (Reset has_fetch out)) = polls s"
  by (cases b; simp)+

subsection \<open>Stopping on completion\<close>

text \<open>
  While the dashboard that a poll loop posts to is open, the loop does what claim C1
  says. Take a poll loop that is running (timer \<open>h\<close>, set, posting to panel \<open>p\<close>, polling
  task \<open>t\<close>) and a poll response whose JSON has \<^verbatim>\<open>"completed"\<close> in \<open>task_status\<close>, in
  \<open>status\<close> or in \<open>state\<close>, any one of the three; let it be the first such response of
  the loop, and let the panel be open when it arrives. Whatever else happened before it,
  the loop is still running when the response arrives and is stopped by it; whatever
  happens afterwards, the timer stays cleared, it went from set to cleared exactly once,
  and it sends no further request.
\<close>

lemma poll_loop_stops_while_dashboard_open:
  assumes "h < length (intervals s)" and "closure (intervals s ! h) = PollTask p t"
    and "active (intervals s ! h)"
    and "getp j ''task_status'' = JStr ''completed'' \<or> getp j ''status'' = JStr ''completed''
         \<or> getp j ''state'' = JStr ''completed''"
    and "\<forall>ev \<in> set before. \<not> completes h ev"
    and "p \<notin> set (disposed (run b s before))"
  shows "active_at h (run b s before)
       \<and> \<not> active_at h (run b s (before @ [Answer h (Resolved (Response ok status (BodyJson j)))]))
       \<and> \<not> active_at h
             (run b s (before @ Answer h (Resolved (Response ok status (BodyJson j))) # after))
       \<and> cancellations b h s
             (before @ Answer h (Resolved (Response ok status (BodyJson j))) # after) = 1
       \<and> filter (\<lambda>q. fst q = h)
             (polls (run b s (before @ Answer h (Resolved (Response ok status (BodyJson j))) # after)))
           = filter (\<lambda>q. fst q = h) (polls (run b s before))"
proof -
  let ?a = "Answer h (Resolved (Response ok status (BodyJson j)))"
  let ?s1 = "run b s before"
  let ?s2 = "step b ?s1 ?a"
  have c: "completes h ?a" using assms(4) by (simp add: completed_def)
  have r1: "h < length (intervals ?s1)" "closure (intervals ?s1 ! h) = PollTask p t"
       "active (intervals ?s1 ! h)"
    using run_poll_timer[OF assms(1,2), of b before] assms(3,5) by auto
  have r2: "h < length (intervals ?s2)" "closure (intervals ?s2 ! h) = PollTask p t"
       "\<not> active (intervals ?s2 ! h)"
    using step_poll_timer[OF r1(1,2), of b ?a] c assms(6) by auto
  have e2: "run b s (before @ [?a]) = ?s2" by (simp add: run_def)
  have e3: "run b s (before @ ?a # after) = run b ?s2 after" by (simp add: run_def)
  have r3: "h < length (intervals (run b ?s2 after))"
       "\<not> active (intervals (run b ?s2 after) ! h)"
    using run_poll_timer[OF r2(1,2), of b after] r2(3) by auto
  have "cancellations b h s (before @ ?a # after) = 1"
    using cancellations_poll_timer[OF assms(1,2), of b "before @ ?a # after"] assms(3) r3(2) e3
    by simp
  moreover have "filter (\<lambda>q. fst q = h) (polls (run b s (before @ ?a # after)))
          = filter (\<lambda>q. fst q = h) (polls ?s1)"
    using polls_run_inactive[OF r2, of b after] e3 by simp
  ultimately show ?thesis using r1 r2 r3 e2 e3 by (simp add: active_at_def)
qed

text \<open>
  Claim C1 does not hold for every poll response, though. The callback posts the update
  to the panel that the start command captured before it tests for completion, inside
  the same \<^verbatim>\<open>try\<close>; once the user has closed the dashboard the post throws, the \<^verbatim>\<open>catch\<close>
  writes a line, and the test and \<^verbatim>\<open>clearInterval\<close> are never reached. A task is
  created and polled; the user closes the dashboard; the worker then reports the task
  as completed, twice: the timer is still set, every tick has sent its request, and
  each completed answer has only written the error of the closed panel. This is so in
  both builds.
\<close>

theorem completed_answer_after_close_keeps_polling:
  "active_at 0 (run WithFallback one_task closed_before_completion)
   \<and> polls (run WithFallback one_task closed_before_completion)
       = [(0, JStr ''abc123''), (0, JStr ''abc123''), (0, JStr ''abc123'')]
   \<and> outputChannel (run WithFallback one_task closed_before_completion)
       = [StartedTask (JStr ''abc123''),
          ErrorPolling (JStr ''abc123'') webview_disposed,
          ErrorPolling (JStr ''abc123'') webview_disposed]
   \<and> cancellations WithFallback 0 one_task closed_before_completion = 0
   \<and> active_at 0 (run FailLoud (run FailLoud fresh [Start True, Created 0 (task_created ''abc123'') 0])
                      closed_before_completion)"
  by code_simp

subsection \<open>What cancels a poll loop\<close>

text \<open>
  Claim C6, as stated, fails: a response that reports the task as failed does not stop
  the loop. The completion test of the callback looks for \<^verbatim>\<open>"completed"\<close> only, and no
  other status is handled anywhere in the extension. After a task is created, polled
  and answered with \<^verbatim>\<open>{"status": "failed"}\<close>, with the dashboard open all the time, its
  timer is still set.
\<close>

theorem failed_status_keeps_polling:
  "active_at 0 (run WithFallback fresh
      [Start True, Created 0 (task_created ''abc123'') 0, Fire 0,
       Answer 0 (reports [(''status'', JStr ''failed'')])])
   \<and> disposed (run WithFallback fresh
      [Start True, Created 0 (task_created ''abc123'') 0, Fire 0,
       Answer 0 (reports [(''status'', JStr ''failed'')])]) = []"
  by code_simp

text \<open>
  Claim C6, amended. A running poll loop is cancelled only by an answer to one of its
  own requests whose JSON has \<^verbatim>\<open>"completed"\<close> in \<open>task_status\<close>, \<open>status\<close> or \<open>state\<close>: no
  other event clears its timer (not a tick, not an answer that reports any other status
  such as a failed task, not the start or the creation of another task, not the reset
  command, not the opening or closing of the dashboard), over one step and over any
  run. While the dashboard
  that the loop posts to is open, such an answer does clear the timer. A poll request
  that fails, or whose body is not JSON, only adds a line to the output channel; the
  timer stays set and its next tick sends the next request.
\<close>

theorem poll_loop_cancelled_only_by_completed:
  assumes "h < length (intervals s)" and "closure (intervals s ! h) = PollTask p t"
    and "active (intervals s ! h)"
  shows "(\<not> active_at h (step b s ev) \<longrightarrow> completes h ev)
       \<and> (\<not> active_at h (run b s evs) \<longrightarrow> (\<exists>ev \<in> set evs. completes h ev))
       \<and> (completes h ev \<and> p \<notin> set (disposed s) \<longrightarrow> \<not> active_at h (step b s ev))
       \<and> answer h (Rejected err) s = appendLine (ErrorPolling t err) s
       \<and> answer h (Resolved (Response ok status (BodyInvalid err))) s
           = appendLine (ErrorPolling t err) s
       \<and> active_at h (answer h (Rejected err) s)
       \<and> polls (fire h (answer h (Rejected err) s)) = polls s @ [(h, t)]"
proof -
  note st = step_poll_timer[OF assms(1,2), of b ev]
  note rn = run_poll_timer[OF assms(1,2), of b evs]
  have 1: "\<not> active_at h (step b s ev) \<longrightarrow> completes h ev"
    using st assms(3) by (auto simp: active_at_def)
  have 2: "\<not> active_at h (run b s evs) \<longrightarrow> (\<exists>ev \<in> set evs. completes h ev)"
    using rn assms(3) by (auto simp: active_at_def)
  have 3: "completes h ev \<and> p \<notin> set (disposed s) \<longrightarrow> \<not> active_at h (step b s ev)"
    using st by (auto simp: active_at_def)
  have a: "answer h (Rejected err) s = appendLine (ErrorPolling t err) s"
    using assms by (simp add: answer_def poll_tick_def)
  have 5: "answer h (Resolved (Response ok status (BodyInvalid err))) s
           = appendLine (ErrorPolling t err) s"
    using assms by (simp add: answer_def poll_tick_def)
  have 6: "active_at h (answer h (Rejected err) s)"
    using assms by (simp add: a active_at_def)
  have 7: "polls (fire h (answer h (Rejected err) s)) = polls s @ [(h, t)]"
    using assms by (simp add: a polls_fire active_at_def)
  from 1 2 3 a 5 6 7 show ?thesis by blast
qed

text \<open>The amended claim at work, on the task that is being polled: an answer that
  reports a failed task leaves the timer set, an answer that reports a completed task
  clears it, and after a request that failed the timer is set and the next tick sends
  the next request.\<close>

theorem poll_loop_cancelled_only_by_completed_witness:
  "active_at 0 (step WithFallback one_task (Answer 0 (reports [(''status'', JStr ''failed'')])))
   \<and> \<not> completes 0 (Answer 0 (reports [(''status'', JStr ''failed'')]))
   \<and> completes 0 (Answer 0 (reports [(''state'', JStr ''completed'')]))
   \<and> \<not> active_at 0
         (step WithFallback one_task (Answer 0 (reports [(''state'', JStr ''completed'')])))
   \<and> active_at 0
         (answer 0 (Rejected \<lparr> err_name = ''TypeError'', err_message = ''fetch failed'' \<rparr>)
            one_task)
   \<and> polls (fire 0
         (answer 0 (Rejected \<lparr> err_name = ''TypeError'', err_message = ''fetch failed'' \<rparr>)
            one_task)) = [(0, JStr ''abc123'')]"
proof -
  let ?failed = "Answer 0 (reports [(''status'', JStr ''failed'')])"
  let ?done = "Answer 0 (reports [(''state'', JStr ''completed'')])"
  let ?err = "\<lparr> err_name = ''TypeError'', err_message = ''fetch failed'' \<rparr>"
  have 1: "0 < length (intervals one_task)"
    and 2: "closure (intervals one_task ! 0) = PollTask 0 (JStr ''abc123'')"
    and 3: "active (intervals one_task ! 0)"
    by (simp_all add: one_task_state)
  have nf: "\<not> completes 0 ?failed" by (simp add: reports_def completed_def)
  have cd: "completes 0 ?done" by (simp add: reports_def completed_def)
  have op: "0 \<notin> set (disposed one_task)" by (simp add: one_task_state)
  note f = poll_loop_cancelled_only_by_completed[OF 1 2 3, of WithFallback ?failed "[]" ?err True 200]
  note d = poll_loop_cancelled_only_by_completed[OF 1 2 3, of WithFallback ?done "[]" ?err True 200]
  have "active_at 0 (step WithFallback one_task ?failed)"
    using f[THEN conjunct1] nf by blast
  moreover have "\<not> active_at 0 (step WithFallback one_task ?done)"
    using d[THEN conjunct2, THEN conjunct2, THEN conjunct1] cd op by blast
  moreover have "active_at 0 (answer 0 (Rejected ?err) one_task)"
    using f[THEN conjunct2, THEN conjunct2, THEN conjunct2, THEN conjunct2, THEN conjunct2,
            THEN conjunct1] .
  moreover have "polls (fire 0 (answer 0 (Rejected ?err) one_task)) = [(0, JStr ''abc123'')]"
    using f[THEN conjunct2, THEN conjunct2, THEN conjunct2, THEN conjunct2, THEN conjunct2,
            THEN conjunct2]
    by (simp add: one_task_state)
  ultimately show ?thesis using nf cd by blast
qed

subsection \<open>Starting a task while others are polled\<close>

lemma active_polls_unchanged: "intervals s' = intervals s \<Longrightarrow> active_polls s' = active_polls s"
  by (simp add: active_polls_def)

lemma active_polls_append1:
  assumes "intervals s' = intervals s @ [x]"
  shows "active_polls s' =
           active_polls s @ (if active x \<and> is_poll x then [length (intervals s)] else [])"
proof -
  have "filter (\<lambda>h. active ((intervals s @ [x]) ! h) \<and> is_poll ((intervals s @ [x]) ! h))
          [0 ..< length (intervals s)]
        = filter (\<lambda>h. active (intervals s ! h) \<and> is_poll (intervals s ! h))
          [0 ..< length (intervals s)]"
    by (rule filter_cong) (simp_all add: nth_append)
  then show ?thesis using assms by (simp add: active_polls_def)
qed

text \<open>
  Claim C5, as stated, fails: the start command keeps the handle of its timer in a local
  constant and never clears a timer of an earlier start. After two tasks are created one
  after the other, two poll loops are running.
\<close>

theorem two_starts_two_loops:
  "active_polls (run WithFallback fresh
      [Start True, Created 0 (task_created ''a'') 0,
       Start True, Created 1 (task_created ''b'') 1]) = [0, 1]
   \<and> map closure (intervals (run WithFallback fresh
      [Start True, Created 0 (task_created ''a'') 0,
       Start True, Created 1 (task_created ''b'') 1]))
       = [PollTask 0 (JStr ''a''), PollTask 0 (JStr ''b'')]"
  by code_simp

text \<open>
  Claim C5, amended. Starting a task cancels nothing: neither the start command nor the
  arrival of the answer to its creation request changes a timer that is set. The start
  command itself sets no timer, and the answer adds at most one poll loop; when the
  worker answers with success and a task identifier while the dashboard that the
  command captured is open, it adds exactly one, with a period of 1000 ms, for the new
  task and that dashboard, beside the loops of earlier tasks.
\<close>

theorem start_cancels_no_loop:
  "(\<forall>h. active_at h s \<longrightarrow>
        active_at h (osae_start has_fetch s)
        \<and> intervals (osae_start has_fetch s) ! h = intervals s ! h
        \<and> active_at h (created b k out now s)
        \<and> intervals (created b k out now s) ! h = intervals s ! h)
   \<and> intervals (osae_start has_fetch s) = intervals s
   \<and> active_polls (osae_start has_fetch s) = active_polls s
   \<and> length (active_polls (created b k out now s)) \<le> length (active_polls s) + 1
   \<and> (k < length (pending s) \<and> pending s ! k = Some p \<and> p \<notin> set (disposed s)
       \<and> ok \<and> \<not> nullish d \<and> truthy (taskId_of d) \<longrightarrow>
        intervals (created b k (Resolved (Response ok status (BodyJson d))) now s)
          = intervals s @ [\<lparr> closure = PollTask p (taskId_of d), period = 1000, active = True \<rparr>]
        \<and> active_polls (created b k (Resolved (Response ok status (BodyJson d))) now s)
          = active_polls s @ [length (intervals s)])"
proof -
  obtain ext where ext: "intervals (created b k out now s) = intervals s @ ext"
    and len: "length ext \<le> 1"
    using created_timers(1) by blast
  have 1: "\<forall>h. active_at h s \<longrightarrow>
        active_at h (osae_start has_fetch s)
        \<and> intervals (osae_start has_fetch s) ! h = intervals s ! h
        \<and> active_at h (created b k out now s)
        \<and> intervals (created b k out now s) ! h = intervals s ! h"
    using ext by (simp add: active_at_def nth_append)
  have 0: "intervals (osae_start has_fetch s) = intervals s" by simp
  have 2: "active_polls (osae_start has_fetch s) = active_polls s"
    by (rule active_polls_unchanged) simp
  have 3: "length (active_polls (created b k out now s)) \<le> length (active_polls s) + 1"
  proof (cases ext)
    case Nil
    with ext have "intervals (created b k out now s) = intervals s" by simp
    then have "active_polls (created b k out now s) = active_polls s"
      by (rule active_polls_unchanged)
    then show ?thesis by simp
  next
    case (Cons x xs)
    with len have "ext = [x]" by simp
    with ext have "intervals (created b k out now s) = intervals s @ [x]" by simp
    then have "active_polls (created b k out now s) =
        active_polls s @ (if active x \<and> is_poll x then [length (intervals s)] else [])"
      by (rule active_polls_append1)
    then show ?thesis by simp
  qed
  have 4: "k < length (pending s) \<and> pending s ! k = Some p \<and> p \<notin> set (disposed s)
       \<and> ok \<and> \<not> nullish d \<and> truthy (taskId_of d) \<longrightarrow>
        intervals (created b k (Resolved (Response ok status (BodyJson d))) now s)
          = intervals s @ [\<lparr> closure = PollTask p (taskId_of d), period = 1000, active = True \<rparr>]
        \<and> active_polls (created b k (Resolved (Response ok status (BodyJson d))) now s)
          = active_polls s @ [length (intervals s)]"
  proof
    assume h: "k < length (pending s) \<and> pending s ! k = Some p \<and> p \<notin> set (disposed s)
       \<and> ok \<and> \<not> nullish d \<and> truthy (taskId_of d)"
    then have i: "intervals (created b k (Resolved (Response ok status (BodyJson d))) now s)
          = intervals s @ [\<lparr> closure = PollTask p (taskId_of d), period = 1000, active = True \<rparr>]"
      by (simp add: created_success)
    then show "intervals (created b k (Resolved (Response ok status (BodyJson d))) now s)
          = intervals s @ [\<lparr> closure = PollTask p (taskId_of d), period = 1000, active = True \<rparr>]
        \<and> active_polls (created b k (Resolved (Response ok status (BodyJson d))) now s)
          = active_polls s @ [length (intervals s)]"
      using active_polls_append1[OF i] by (simp add: is_poll_def)
  qed
  from 0 1 2 3 4 show ?thesis by blast
qed

text \<open>The amended claim at work: while the first task is polled, a second start is
  made and answered; the first loop is untouched and a second one runs beside it.\<close>

theorem start_cancels_no_loop_witness:
  "active_at 0 one_task
   \<and> active_at 0 (osae_start True one_task)
   \<and> pending (osae_start True one_task) ! 1 = Some 0
   \<and> active_at 0 (created WithFallback 1 (task_created ''b'') 1 (osae_start True one_task))
   \<and> intervals (created WithFallback 1 (task_created ''b'') 1 (osae_start True one_task))
       = [\<lparr> closure = PollTask 0 (JStr ''abc123''), period = 1000, active = True \<rparr>,
          \<lparr> closure = PollTask 0 (JStr ''b''), period = 1000, active = True \<rparr>]
   \<and> active_polls (created WithFallback 1 (task_created ''b'') 1 (osae_start True one_task))
       = [0, 1]"
proof -
  let ?s = "osae_start True one_task"
  let ?d = "JObj [(''task_id'', JStr ''b'')]"
  have a0: "active_at 0 one_task" by (simp add: one_task_state active_at_def)
  have pend: "pending ?s = [None, Some 0]"
    by (simp add: osae_start_def openDashboard_def one_task_state Let_def)
  have i: "intervals ?s = intervals one_task" and dsp: "disposed ?s = []"
    by (simp_all add: one_task_state)
  have ap: "active_polls ?s = [0]"
    by (simp add: active_polls_def is_poll_def one_task_state)
  have t: "taskId_of ?d = JStr ''b''" by (simp add: taskId_of_def js_or_def)
  have hyp: "1 < length (pending ?s) \<and> pending ?s ! 1 = Some 0 \<and> 0 \<notin> set (disposed ?s)
       \<and> True \<and> \<not> nullish ?d \<and> truthy (taskId_of ?d)"
    by (simp add: pend one_task_state t)
  note th1 = start_cancels_no_loop[of one_task True WithFallback 1 "task_created ''b''" 1]
  note th2 = start_cancels_no_loop[of ?s True WithFallback 1 "task_created ''b''" 1 0 True ?d 200]
  have a1: "active_at 0 ?s" using th1[THEN conjunct1] a0 by blast
  have a2: "active_at 0 (created WithFallback 1 (task_created ''b'') 1 ?s)"
    using th2[THEN conjunct1] a1 by blast
  have "intervals (created WithFallback 1 (Resolved (Response True 200 (BodyJson ?d))) 1 ?s)
          = intervals ?s @ [\<lparr> closure = PollTask 0 (taskId_of ?d), period = 1000, active = True \<rparr>]
        \<and> active_polls (created WithFallback 1 (Resolved (Response True 200 (BodyJson ?d))) 1 ?s)
          = active_polls ?s @ [length (intervals ?s)]"
    using th2[THEN conjunct2, THEN conjunct2, THEN conjunct2, THEN conjunct2] hyp by blast
  then have "intervals (created WithFallback 1 (task_created ''b'') 1 ?s)
          = [\<lparr> closure = PollTask 0 (JStr ''abc123''), period = 1000, active = True \<rparr>,
             \<lparr> closure = PollTask 0 (JStr ''b''), period = 1000, active = True \<rparr>]
        \<and> active_polls (created WithFallback 1 (task_created ''b'') 1 ?s) = [0, 1]"
    unfolding task_created_def by (simp add: t ap one_task_state)
  with a0 a1 a2 pend show ?thesis by simp
qed

subsection \<open>The simulated run\<close>

lemma isNetworkError_abort: "err_name e = ''AbortError'' \<Longrightarrow> isNetworkError e"
  by (simp add: isNetworkError_def)

text \<open>
  With the dashboard open all the time, the simulated run does what claim C7 says,
  whatever the clock shows when it starts. After a start whose creation request was
  aborted, the webview has received the task-started message and the plan of three
  named steps at index 0, and a timer with a period of 1000 ms is set. Its first tick
  posts the plan at index 1. Its second tick posts the plan at index 2 and then the
  final update, where \<open>status\<close>, \<open>task_status\<close> and \<open>state\<close> are all \<^verbatim>\<open>"completed"\<close>, and
  clears the timer; a cleared timer does not go off again.
\<close>

lemma simulated_run_dashboard_open:
  "webview (run WithFallback fresh [Start True, Created 0 aborted now])
     = [(0, JObj [(''type'', JStr ''task_started''), (''task_id'', JStr (''sim-'' @ decimal now)),
                  (''prompt'', JStr ''Simulated run'')]),
        (0, JObj [(''type'', JStr ''task_update''),
                  (''data'', JObj [(''plan'', JArr [JStr ''Gather context'', JStr ''Plan actions'',
                                                     JStr ''Execute steps'']),
                                   (''currentStepIndex'', JNum 0)])])]"
  "intervals (run WithFallback fresh [Start True, Created 0 aborted now])
     = [\<lparr> closure = Simulated 0 (''sim-'' @ decimal now) 0, period = 1000, active = True \<rparr>]"
  "webview (run WithFallback fresh [Start True, Created 0 aborted now, Fire 0])
     = webview (run WithFallback fresh [Start True, Created 0 aborted now])
       @ [(0, JObj [(''type'', JStr ''task_update''),
                    (''data'', JObj [(''plan'', JArr [JStr ''Gather context'', JStr ''Plan actions'',
                                                       JStr ''Execute steps'']),
                                     (''currentStepIndex'', JNum 1)])])]"
  "intervals (run WithFallback fresh [Start True, Created 0 aborted now, Fire 0])
     = [\<lparr> closure = Simulated 0 (''sim-'' @ decimal now) 1, period = 1000, active = True \<rparr>]"
  "webview (run WithFallback fresh [Start True, Created 0 aborted now, Fire 0, Fire 0])
     = webview (run WithFallback fresh [Start True, Created 0 aborted now, Fire 0])
       @ [(0, JObj [(''type'', JStr ''task_update''),
                    (''data'', JObj [(''plan'', JArr [JStr ''Gather context'', JStr ''Plan actions'',
                                                       JStr ''Execute steps'']),
                                     (''currentStepIndex'', JNum 2)])]),
          (0, JObj [(''type'', JStr ''task_update''),
                    (''data'', JObj [(''plan'', JArr [JStr ''Gather context'', JStr ''Plan actions'',
                                                       JStr ''Execute steps'']),
                                     (''currentStepIndex'', JNum 2),
                                     (''status'', JStr ''completed''),
                                     (''task_status'', JStr ''completed''),
                                     (''state'', JStr ''completed'')])])]"
  "intervals (run WithFallback fresh [Start True, Created 0 aborted now, Fire 0, Fire 0])
     = [\<lparr> closure = Simulated 0 (''sim-'' @ decimal now) 2, period = 1000, active = False \<rparr>]"
  "run WithFallback fresh [Start True, Created 0 aborted now, Fire 0, Fire 0, Fire 0]
     = run WithFallback fresh [Start True, Created 0 aborted now, Fire 0, Fire 0]"
  "uncaught (run WithFallback fresh [Start True, Created 0 aborted now, Fire 0, Fire 0]) = []"
  "outputChannel (run WithFallback fresh [Start True, Created 0 aborted now, Fire 0, Fire 0])
     = [ErrorCreating \<lparr> err_name = ''AbortError'', err_message = ''This operation was aborted'' \<rparr>,
        FallingBack, StartingSimulated,
        SimulatedProgress (''sim-'' @ decimal now) 1,
        SimulatedProgress (''sim-'' @ decimal now) 2,
        SimulatedCompleted (''sim-'' @ decimal now)]"
  by (simp_all add: run_def fresh_def osae_start_def openDashboard_def created_def
      osae_created_def aborted_def start_catch_def isNetworkError_abort startSimulatedTask_def
      postMessage_def appendLine_def setInterval_def clearInterval_def fire_def sim_tick_def
      sim_update_def sim_final_def sim_started_def simulatedPlan_def Let_def)

text \<open>
  A simulated timer whose dashboard was closed never stops: each tick counts the step,
  throws at the post, posts nothing and leaves the timer set.
\<close>

lemma fire_simulated_closed:
  assumes "h < length (intervals s)" and "closure (intervals s ! h) = Simulated p t idx"
    and "active (intervals s ! h)" and "p \<in> set (disposed s)"
  shows "fire h s =
           escapes webview_disposed
             (s\<lparr> intervals :=
                   (intervals s)[h := (intervals s ! h)\<lparr> closure := Simulated p t (idx + 1) \<rparr>] \<rparr>)"
  using assms by (simp add: fire_def sim_tick_def postMessage_def Let_def)

lemma simulated_timer_never_stops:
  assumes "h < length (intervals s)" and "closure (intervals s ! h) = Simulated p t idx"
    and "active (intervals s ! h)" and "p \<in> set (disposed s)"
  shows "active_at h ((fire h ^^ n) s) \<and> webview ((fire h ^^ n) s) = webview s
       \<and> length (uncaught ((fire h ^^ n) s)) = length (uncaught s) + n"
  using assms
proof (induction n arbitrary: s idx)
  case 0
  then show ?case by (simp add: active_at_def)
next
  case (Suc n)
  let ?s1 = "fire h s"
  have f: "?s1 = escapes webview_disposed
             (s\<lparr> intervals :=
                   (intervals s)[h := (intervals s ! h)\<lparr> closure := Simulated p t (idx + 1) \<rparr>] \<rparr>)"
    using Suc.prems by (rule fire_simulated_closed)
  have 1: "h < length (intervals ?s1)" using Suc.prems(1) by (simp add: f)
  have 2: "closure (intervals ?s1 ! h) = Simulated p t (idx + 1)"
    using Suc.prems(1) by (simp add: f)
  have 3: "active (intervals ?s1 ! h)" using Suc.prems(1,3) by (simp add: f)
  have 4: "p \<in> set (disposed ?s1)" using Suc.prems(4) by (simp add: f)
  have w: "webview ?s1 = webview s" by (simp add: f)
  have u: "length (uncaught ?s1) = length (uncaught s) + 1" by (simp add: f escapes_def)
  have e: "(fire h ^^ Suc n) s = (fire h ^^ n) ?s1" by (simp add: funpow_swap1)
  show ?case using Suc.IH[OF 1 2 3 4] w u e by simp
qed

text \<open>
  Claim C7 does not hold for every simulated run. The callback of the simulated timer
  has no \<^verbatim>\<open>try\<close>, and it posts to the panel that the start command captured before it
  gets to \<^verbatim>\<open>clearInterval\<close>. The creation request is aborted at time 1700 and the
  simulated run starts; after its first tick the user closes the dashboard. From then
  on every tick throws at its first post: the final update with the three completed
  fields is never posted, the step index runs past the plan, and the timer is still
  set after any number of ticks, here three.
\<close>

theorem simulated_run_after_close_never_stops:
  "webview simulated_start
     = [(0, JObj [(''type'', JStr ''task_started''), (''task_id'', JStr ''sim-1700''),
                  (''prompt'', JStr ''Simulated run'')]),
        (0, JObj [(''type'', JStr ''task_update''),
                  (''data'', JObj [(''plan'', JArr [JStr ''Gather context'', JStr ''Plan actions'',
                                                     JStr ''Execute steps'']),
                                   (''currentStepIndex'', JNum 0)])])]
   \<and> webview (run WithFallback simulated_start [Fire 0, CloseDashboard, Fire 0, Fire 0, Fire 0])
     = webview simulated_start
       @ [(0, JObj [(''type'', JStr ''task_update''),
                    (''data'', JObj [(''plan'', JArr [JStr ''Gather context'', JStr ''Plan actions'',
                                                       JStr ''Execute steps'']),
                                     (''currentStepIndex'', JNum 1)])])]
   \<and> intervals (run WithFallback simulated_start [Fire 0, CloseDashboard, Fire 0, Fire 0, Fire 0])
     = [\<lparr> closure = Simulated 0 ''sim-1700'' 4, period = 1000, active = True \<rparr>]
   \<and> uncaught (run WithFallback simulated_start [Fire 0, CloseDashboard, Fire 0, Fire 0, Fire 0])
     = [\<lparr> err_name = ''Error'', err_message = ''Webview is disposed'' \<rparr>,
        \<lparr> err_name = ''Error'', err_message = ''Webview is disposed'' \<rparr>,
        \<lparr> err_name = ''Error'', err_message = ''Webview is disposed'' \<rparr>]
   \<and> outputChannel (run WithFallback simulated_start [Fire 0, CloseDashboard, Fire 0, Fire 0, Fire 0])
     = [ErrorCreating \<lparr> err_name = ''AbortError'', err_message = ''This operation was aborted'' \<rparr>,
        FallingBack, StartingSimulated, SimulatedProgress ''sim-1700'' 1]"
  by code_simp

section \<open>Launching the worker\<close>

lemma appendLine_launch [simp]:
  "pythonProcess (appendLine l s) = pythonProcess s"
  "workers (appendLine l s) = workers s"
  "commands (appendLine l s) = commands s"
  "errorMessages (appendLine l s) = errorMessages s"
  "setup_runs (appendLine l s) = setup_runs s"
  "version_checks (appendLine l s) = version_checks s"
  by (simp_all add: appendLine_def)

lemma showErrorMessage_launch [simp]:
  "pythonProcess (showErrorMessage n s) = pythonProcess s"
  "workers (showErrorMessage n s) = workers s"
  "commands (showErrorMessage n s) = commands s"
  "errorMessages (showErrorMessage n s) = errorMessages s @ [n]"
  "setup_runs (showErrorMessage n s) = setup_runs s"
  "version_checks (showErrorMessage n s) = version_checks s"
  "outputChannel (showErrorMessage n s) = outputChannel s"
  by (simp_all add: showErrorMessage_def)

lemma registerCommands_launch [simp]:
  "pythonProcess (registerCommands s) = pythonProcess s"
  "workers (registerCommands s) = workers s"
  "errorMessages (registerCommands s) = errorMessages s"
  "setup_runs (registerCommands s) = setup_runs s"
  "version_checks (registerCommands s) = version_checks s"
  "outputChannel (registerCommands s) = outputChannel s"
  "commands (registerCommands s) = commands s @ [''osae.openDashboard'', ''osae.start'', ''osae.reset'']"
  by (simp_all add: registerCommands_def)



lemma ensure_setup_succeeds:
  assumes "\<not> setup_fails env"
  shows "\<exists>s'. ensureAgentServerSetup env s = (Inr (), s')
           \<and> pythonProcess s' = pythonProcess s \<and> workers s' = workers s
           \<and> commands s' = commands s \<and> errorMessages s' = errorMessages s
           \<and> setup_runs s' = (if venv_exists env then setup_runs s else setup_runs s + 1)
           \<and> version_checks s' = version_checks s"
proof (cases "venv_exists env")
  case True
  then show ?thesis by (simp add: ensureAgentServerSetup_def)
next
  case False
  obtain e code stderr ex where so: "setup_script env = SetupOutcome e code stderr ex"
    by (cases "setup_script env") auto
  have "e = None" "code = Some 0" "ex" using assms False so by (simp_all add: setup_fails_def)
  then show ?thesis using False so
    by (simp add: ensureAgentServerSetup_def on_setup_close_def)
qed

lemma spawn_without_usable_interpreter:
  assumes "version_check_fails env"
  shows "\<exists>err s'. spawnPythonServer env s = (Inr None, s')
           \<and> pythonProcess s' = pythonProcess s \<and> workers s' = workers s
           \<and> commands s' = commands s \<and> errorMessages s' = errorMessages s
           \<and> setup_runs s' = setup_runs s \<and> version_checks s' = version_checks s + 1
           \<and> outputChannel s' = outputChannel s
                @ [VenvPythonNotUsable (pythonExe env) err, FailedToSpawn err]"
  using assms
  by (cases "version_check env")
     (auto simp: version_check_fails_def spawnPythonServer_def spawnPythonServer_try_def
        check_venv_python_def)

text \<open>
  \<^verbatim>\<open>spawnPythonServer\<close> catches everything and returns \<^verbatim>\<open>undefined\<close> instead: the \<^verbatim>\<open>catch\<close>
  around its call in \<^verbatim>\<open>activate\<close>, with the notification that the worker could not be
  started, is never entered, and with an interpreter that fails its version check
  nothing is shown to the user.
\<close>

lemma spawnPythonServer_never_throws: "\<exists>p s'. spawnPythonServer env s = (Inr p, s')"
  by (auto simp: spawnPythonServer_def split: prod.splits sum.splits)

lemma unusable_interpreter_shows_nothing:
  assumes "\<not> setup_fails env" and "version_check_fails env"
  shows "errorMessages (activate env s) = errorMessages s"
proof -
  obtain s1 where e: "ensureAgentServerSetup env (appendLine Activating s) = (Inr (), s1)"
    and fr1: "errorMessages s1 = errorMessages s"
    using ensure_setup_succeeds[OF assms(1), of "appendLine Activating s"] by auto
  obtain err s2 where sp: "spawnPythonServer env s1 = (Inr None, s2)"
    and fr2: "errorMessages s2 = errorMessages s1"
    using spawn_without_usable_interpreter[OF assms(2), of s1] by auto
  show ?thesis using e sp fr1 fr2 by (simp add: activate_def registerCommands_def)
qed

text \<open>
  Activation where the interpreter is found and passes its version check, where the
  first-run setup produces it, and where \<^verbatim>\<open>spawn\<close> gives a handle without \<^verbatim>\<open>pid\<close>: the
  handle is held and the commands are registered. And the notifications of a setup that
  exits with status 3 or is killed without writing to its error stream, or exits with
  status 0 and leaves no interpreter.
\<close>

lemma activation_examples:
  "pythonProcess (activate (unusable_interpreter\<lparr> version_check := CheckStatus (Some 0) \<rparr>) fresh)
     = Some (Child (Some 4242))"
  "workers (activate (unusable_interpreter\<lparr> version_check := CheckStatus (Some 0) \<rparr>) fresh)
     = [Child (Some 4242)]"
  "outputChannel (activate (unusable_interpreter\<lparr> version_check := CheckStatus (Some 0) \<rparr>) fresh)
     = [Activating, FoundVenvPython ''agent-server/venv/bin/python'',
        SidecarSpawned ''agent-server/venv/bin/python'' (Some 4242)]"
  "commands (activate (unusable_interpreter\<lparr> version_check := CheckStatus (Some 0) \<rparr>) fresh)
     = [''osae.openDashboard'', ''osae.start'', ''osae.reset'']"
  "outputChannel (activate (unusable_interpreter\<lparr> venv_exists := False,
                     version_check := CheckStatus (Some 0), worker_spawn := Spawned None \<rparr>) fresh)
     = [Activating, VenvPythonMissing, RunningSetupScript, SetupCompleted,
        SidecarSpawned ''agent-server/venv/bin/python'' None]"
  "pythonProcess (activate (unusable_interpreter\<lparr> venv_exists := False,
                     version_check := CheckStatus (Some 0), worker_spawn := Spawned None \<rparr>) fresh)
     = Some (Child None)"
  "outputChannel (activate unusable_interpreter fresh)
     = [Activating, FoundVenvPython ''agent-server/venv/bin/python'',
        VenvPythonNotUsable ''agent-server/venv/bin/python''
          \<lparr> err_name = ''Error'',
            err_message = ''venv python not found or not executable at agent-server/venv/bin/python'' \<rparr>,
        FailedToSpawn
          \<lparr> err_name = ''Error'',
            err_message = ''venv python not found or not executable at agent-server/venv/bin/python'' \<rparr>]"
  "errorMessages (activate (missing_interpreter\<lparr> setup_script := SetupOutcome None (Some 3) [] False \<rparr>) fresh)
     = [RuntimeSetupFailed, FailedToInitialize ''setup exited with code 3'']"
  "errorMessages (activate (missing_interpreter\<lparr> setup_script := SetupOutcome None (Some (- 2)) [] False \<rparr>) fresh)
     = [RuntimeSetupFailed, FailedToInitialize ''setup exited with code -2'']"
  "errorMessages (activate (missing_interpreter\<lparr> setup_script := SetupOutcome None None [] False \<rparr>) fresh)
     = [RuntimeSetupFailed, FailedToInitialize ''setup exited with code null'']"
  "errorMessages (activate (missing_interpreter\<lparr> setup_script := SetupOutcome None (Some 0) [] False \<rparr>) fresh)
     = [SetupPythonNotFound, FailedToInitialize ''venv python missing after setup'']"
  "outputChannel (activate missing_shell fresh)
     = [Activating, VenvPythonMissing, RunningSetupScript,
        SetupSpawnFailed \<lparr> err_name = ''Error'', err_message = ''spawn bash ENOENT'' \<rparr>,
        SetupFailedWithCode (Some (- 2)) [],
        AgentSetupFailed \<lparr> err_name = ''Error'', err_message = ''spawn bash ENOENT'' \<rparr>]"
  by code_simp+




section \<open>Falling back to simulation\<close>

text \<open>
  What the start command does with the failures of the creation request. A response
  with a status that is not a success, and a success whose JSON carries no task
  identifier, write their line to the output channel and end the command: no timer is
  set and nothing is posted. A simulated run is started exactly in the build with the
  fallback, exactly when something was thrown inside the \<^verbatim>\<open>try\<close> before the first post,
  the thrown error passes \<open>isNetworkError\<close> and the dashboard is still open.
\<close>

lemma osae_created_error_status:
  "osae_created b p (Resolved (Response False status bd)) now s
     = appendLine (FailedToCreate (Some status)) s"
  by (simp add: osae_created_def)

lemma osae_created_no_task_id:
  assumes "\<not> nullish d" and "\<not> truthy (taskId_of d)"
  shows "osae_created b p (Resolved (Response True status (BodyJson d))) now s
           = appendLine NoTaskIdReturned s"
  using assms by (simp add: osae_created_def)

lemma osae_created_null_body:
  "osae_created WithFallback p (Resolved (Response True status (BodyJson JNull))) now s
     = appendLine NotFallingBack (appendLine (ErrorCreating (null_read ''task_id'')) s)"
  by (simp add: osae_created_def start_catch_def null_read_not_network)

lemma simulation_started_iff:
  "(\<exists>i \<in> set (drop (length (intervals s)) (intervals (osae_created b p out now s))). \<not> is_poll i)
   \<longleftrightarrow> b = WithFallback \<and> p \<notin> set (disposed s)
        \<and> (\<exists>err. thrown out = Some err \<and> isNetworkError err)"
  by (cases out rule: thrown.cases)
     (auto simp: osae_created_def start_catch_timers null_read_not_network
        webview_disposed_not_network postMessage_def is_poll_def)

lemma fail_loud_never_simulates:
  "\<forall>i \<in> set (drop (length (intervals s)) (intervals (osae_created FailLoud p out now s))). is_poll i"
  using simulation_started_iff[of s FailLoud p out now] by blast

lemma error_500_never_simulates:
  "run b fresh [Start True, Created 0 (Resolved (Response False 500 bd)) now]
     = fresh\<lparr> dashboardPanel := Some 0, panels := 1, pending := [None],
              outputChannel := [FailedToCreate (Some 500)] \<rparr>"
  by (simp add: run_def fresh_def osae_start_def openDashboard_def created_def
      osae_created_error_status appendLine_def Let_def)

lemma json_parse_error_passes: "isNetworkError json_parse_error"
  by code_simp

text \<open>What the test in the \<^verbatim>\<open>catch\<close> makes of some errors: it goes by the name
  \<^verbatim>\<open>AbortError\<close> and by four patterns in the message, or in the rendering of the error
  when the message is empty.\<close>

lemma isNetworkError_examples:
  "isNetworkError \<lparr> err_name = ''AbortError'', err_message = ''This operation was aborted'' \<rparr>"
  "isNetworkError \<lparr> err_name = ''TypeError'', err_message = ''Failed to fetch'' \<rparr>"
  "isNetworkError \<lparr> err_name = ''Error'', err_message = ''connect ECONNREFUSED 127.0.0.1:8000'' \<rparr>"
  "isNetworkError \<lparr> err_name = ''Error'', err_message = ''read ECONNREFUSED'' \<rparr>"
  "isNetworkError \<lparr> err_name = ''TypeError'',
                    err_message = ''NetworkError when attempting to fetch resource.'' \<rparr>"
  "isNetworkError \<lparr> err_name = ''NetworkError'', err_message = [] \<rparr>"
  "\<not> isNetworkError \<lparr> err_name = ''TypeError'', err_message = ''fetch failed'' \<rparr>"
  "\<not> isNetworkError \<lparr> err_name = ''Error'', err_message = ''Internal Server Error'' \<rparr>"
  "\<not> isNetworkError \<lparr> err_name = ''Error'', err_message = [] \<rparr>"
  by code_simp+

text \<open>
  Claim C3 holds for an error status and for valid JSON without an identifier (the
  lemmas above), but not for every protocol failure. The body of a success response is
  read inside the same \<^verbatim>\<open>try\<close> as the request is sent, and the \<^verbatim>\<open>catch\<close> tells a
  connectivity failure from the text of the message. A reachable worker that answers
  \<^verbatim>\<open>200\<close> with the plain text \<^verbatim>\<open>connection pool exhausted\<close> makes \<^verbatim>\<open>res.json()\<close> throw a
  syntax error whose message quotes that text; the pattern \<^verbatim>\<open>connect\<close> matches it, and a
  simulated run is started: the simulated task is announced to the dashboard with the
  fixed plan, the timer of the simulation is set, no error is shown, and the output
  channel says that the server is unreachable.
\<close>

theorem simulated_run_after_unparsable_success:
  "isNetworkError json_parse_error
   \<and> intervals (run WithFallback fresh [Start True, Created 0 unparsable_success now])
     = [\<lparr> closure = Simulated 0 (''sim-'' @ decimal now) 0, period = 1000, active = True \<rparr>]
   \<and> webview (run WithFallback fresh [Start True, Created 0 unparsable_success now])
     = [(0, JObj [(''type'', JStr ''task_started''), (''task_id'', JStr (''sim-'' @ decimal now)),
                  (''prompt'', JStr ''Simulated run'')]),
        (0, JObj [(''type'', JStr ''task_update''),
                  (''data'', JObj [(''plan'', JArr [JStr ''Gather context'', JStr ''Plan actions'',
                                                     JStr ''Execute steps'']),
                                   (''currentStepIndex'', JNum 0)])])]
   \<and> errorMessages (run WithFallback fresh [Start True, Created 0 unparsable_success now]) = []
   \<and> outputChannel (run WithFallback fresh [Start True, Created 0 unparsable_success now])
     = [ErrorCreating json_parse_error, FallingBack, StartingSimulated]"
  by (simp add: json_parse_error_passes unparsable_success_def run_def fresh_def osae_start_def
      openDashboard_def created_def osae_created_def start_catch_def startSimulatedTask_def
      postMessage_def appendLine_def setInterval_def sim_started_def sim_update_def
      simulatedPlan_def Let_def)

end
